theory Spec2Isabelle
  imports Complex_Main "HOL-Library.Word"
begin

section \<open>Numerical primitives\<close>

text \<open>
  Floating-point numbers of the program are modelled as real numbers.
  \<open>np.clip(a, lo, hi)\<close> on scalars computes \<open>minimum(maximum(a, lo), hi)\<close>; when
  \<open>lo > hi\<close> the result is therefore \<open>hi\<close>.  The float remainder \<open>a % b\<close> has the
  sign of the divisor: \<open>a - b * floor(a / b)\<close>.
\<close>

definition np_clip :: "real \<Rightarrow> real \<Rightarrow> real \<Rightarrow> real" where
  "np_clip a lo hi = min (max a lo) hi"

definition py_mod :: "real \<Rightarrow> real \<Rightarrow> real" where
  "py_mod a b = a - b * of_int \<lfloor>a / b\<rfloor>"

text \<open>
  Exceptions of the source are values of the model.  \<open>NotFinite\<close> is not an
  exception: it marks a computation whose result numpy reports as \<open>nan\<close> or as an
  infinity (with a warning), which is no real number; the model does not follow the
  program beyond such a value.
\<close>

datatype py_error =
  KeyError | ZeroDivisionError | IndexError | ValueError | AttributeError | NotFinite

section \<open>Configuration\<close>

text \<open>
  The configuration is a nested dictionary read from a YAML file.  The per-strategy
  desired speed is looked up by the strategy name and may be missing; the
  \<open>elimination\<close> section and its two keys are optional and have defaults.
\<close>

record controller_config =
  cfg_desired_speed :: "string \<rightharpoonup> real"
  cfg_a_max :: real
  cfg_b_max :: real
  cfg_reaction_time :: real
  cfg_min_gap :: real
  cfg_wheelbase :: real
  cfg_lookahead_distance :: real

record elimination_config =
  cfg_enabled :: "bool option"
  cfg_elimination_chance :: "int option"

record simulation_config =
  cfg_dt :: real
  cfg_laps :: nat
  cfg_time_limit :: real
  cfg_collision_radius :: real
  cfg_near_miss_ttc_threshold :: real
  cfg_elimination :: "elimination_config option"

record config =
  cfg_controller :: controller_config
  cfg_simulation :: simulation_config

section \<open>Vehicle state (\<open>car.py\<close>)\<close>

text \<open>One sample of a vehicle's trajectory log, as appended by \<open>Car.update_state\<close>.\<close>

record traj_point =
  tp_x :: real
  tp_y :: real
  tp_yaw :: real
  tp_velocity :: real
  tp_acceleration :: real
  tp_s_position :: real
  tp_lap :: nat

text \<open>The controllers of \<open>controller.py\<close> are plain parameter holders.\<close>

record IDMController =
  a_max :: real
  b_max :: real
  idm_min_gap :: real
  idm_reaction_time :: real
  idm_desired_speed :: real
  delta :: nat

record PurePursuitController =
  pp_lookahead_distance :: real
  pp_wheelbase :: real

record CombinedController =
  idm :: IDMController
  pure_pursuit :: PurePursuitController

text \<open>
  The elimination reason is a formatted string in the source; the model keeps the data
  the string is formatted from.
\<close>

datatype reason =
    Eliminated_after_collision int int
  | Markov_Chain_state_transition

record car =
  car_id :: nat
  strategy_type :: string
  car_x :: real
  car_y :: real
  yaw :: real
  velocity :: real
  acceleration :: real
  lane :: real
  target_lane :: real
  lap_count :: nat
  s_position :: real
  lane_change_timer :: real
  desired_speed :: real
  max_accel :: real
  max_brake :: real
  reaction_time :: real
  min_gap :: real
  wheelbase :: real
  lookahead_distance :: real
  speed_multiplier :: real
  trajectory :: "traj_point list"
  collision_flag :: bool
  collision_count :: nat
  total_collision_severity :: real
  eliminated :: bool
  elimination_time :: "real option"
  elimination_reason :: "reason option"
  lap_times :: "real list"
  last_lap_start_s :: real
  last_lap_start_time :: real
  controller :: CombinedController

definition get_max_speed :: "car \<Rightarrow> real" where
  "get_max_speed c = desired_speed c * speed_multiplier c"

text \<open>
  The constructors of the three controller classes.  \<open>CombinedController.__init__\<close>
  takes the parameters of both controllers from the configuration; the IDM minimum gap
  is the configured one, not the vehicle's strategy-scaled gap.
\<close>

definition IDMController_init :: "real \<Rightarrow> real \<Rightarrow> real \<Rightarrow> real \<Rightarrow> real \<Rightarrow> IDMController" where
  "IDMController_init a b g T v =
     \<lparr>a_max = a, b_max = b, idm_min_gap = g, idm_reaction_time = T,
      idm_desired_speed = v, delta = 4\<rparr>"

definition PurePursuitController_init :: "real \<Rightarrow> real \<Rightarrow> PurePursuitController" where
  "PurePursuitController_init la wb = \<lparr>pp_lookahead_distance = la, pp_wheelbase = wb\<rparr>"

definition CombinedController_init :: "config \<Rightarrow> string \<Rightarrow> py_error + CombinedController" where
  "CombinedController_init cfg st =
     (let cc = cfg_controller cfg in
      case cfg_desired_speed cc st of
        None \<Rightarrow> Inl KeyError
      | Some v \<Rightarrow>
          Inr \<lparr>idm = IDMController_init (cfg_a_max cc) (cfg_b_max cc) (cfg_min_gap cc)
                       (cfg_reaction_time cc) v,
               pure_pursuit = PurePursuitController_init (cfg_lookahead_distance cc)
                                (cfg_wheelbase cc)\<rparr>)"

text \<open>
  \<open>Car.__init__\<close>.  The initial lane is drawn by \<open>np.random.randint(0, 5)\<close>; the model
  takes the drawn number \<open>rnd\<close> as an argument and reduces it to the range \<open>0..4\<close>.
  The \<open>controller\<close> attribute is attached by the simulation right after construction
  (\<open>new_car\<close> below), so the constructor receives it here.
\<close>

definition Car_init ::
  "nat \<Rightarrow> real \<Rightarrow> real \<Rightarrow> real \<Rightarrow> string \<Rightarrow> config \<Rightarrow> nat \<Rightarrow> CombinedController
     \<Rightarrow> py_error + car" where
  "Car_init i x0 y0 yaw0 st cfg rnd ctl =
     (let cc = cfg_controller cfg in
      case cfg_desired_speed cc st of
        None \<Rightarrow> Inl KeyError
      | Some v \<Rightarrow>
          Inr \<lparr>car_id = i, strategy_type = st, car_x = x0, car_y = y0, yaw = yaw0,
               velocity = 0, acceleration = 0,
               lane = real (rnd mod 5), target_lane = real (rnd mod 5),
               lap_count = 0, s_position = 0, lane_change_timer = 0,
               desired_speed = v, max_accel = cfg_a_max cc, max_brake = cfg_b_max cc,
               reaction_time = cfg_reaction_time cc,
               min_gap = (if st = ''aggressive'' then cfg_min_gap cc * (8 / 10)
                          else if st = ''balanced'' then cfg_min_gap cc
                          else cfg_min_gap cc * (12 / 10)),
               wheelbase = cfg_wheelbase cc,
               lookahead_distance = cfg_lookahead_distance cc,
               speed_multiplier = (if st = ''aggressive'' then 12 / 10
                                   else if st = ''balanced'' then 1
                                   else 9 / 10),
               trajectory = [], collision_flag = False, collision_count = 0,
               total_collision_severity = 0, eliminated = False,
               elimination_time = None, elimination_reason = None,
               lap_times = [], last_lap_start_s = 0, last_lap_start_time = 0,
               controller = ctl\<rparr>)"

text \<open>
  One iteration of \<open>_initialize_cars\<close>, after the start position and heading have been
  chosen: construct the car, scale its desired speed by the global speed multiplier
  (the command line's \<open>--speed-multiplier\<close>, any float) and attach a controller.
\<close>

definition new_car ::
  "config \<Rightarrow> real \<Rightarrow> nat \<Rightarrow> real \<Rightarrow> real \<Rightarrow> real \<Rightarrow> string \<Rightarrow> nat \<Rightarrow> py_error + car" where
  "new_car cfg global_multiplier i x0 y0 yaw0 st rnd =
     (case CombinedController_init cfg st of
        Inl e \<Rightarrow> Inl e
      | Inr ctl \<Rightarrow>
          (case Car_init i x0 y0 yaw0 st cfg rnd ctl of
             Inl e \<Rightarrow> Inl e
           | Inr c \<Rightarrow> Inr (c\<lparr>desired_speed := desired_speed c * global_multiplier\<rparr>)))"

section \<open>Kinematic bicycle model (\<open>physics.py\<close>)\<close>

definition update_car_dynamics :: "car \<Rightarrow> real \<Rightarrow> real \<Rightarrow> real \<Rightarrow> car" where
  "update_car_dynamics c accel steering_angle dt =
     (let v1 = velocity c + accel * dt;
          max_speed = get_max_speed c;
          v2 = np_clip v1 0 max_speed;
          x2 = car_x c + v2 * cos (yaw c) * dt;
          y2 = car_y c + v2 * sin (yaw c) * dt;
          yaw2 = (if v2 > 1 / 100
                  then py_mod (yaw c + (v2 / wheelbase c) * tan steering_angle * dt) (2 * pi)
                  else yaw c)
      in c\<lparr>velocity := v2, car_x := x2, car_y := y2, yaw := yaw2, acceleration := accel\<rparr>)"


text \<open>
  The scheduler calls the integrator once per tick; \<open>drive\<close> applies a finite sequence
  of commands \<open>(acceleration, steering angle, dt)\<close> to one car, tick by tick.
\<close>

fun drive :: "car \<Rightarrow> (real \<times> real \<times> real) list \<Rightarrow> car" where
  "drive c [] = c"
| "drive c ((a, st, dt) # cmds) = drive (update_car_dynamics c a st dt) cmds"

section \<open>Longitudinal control (\<open>controller.py\<close>, \<open>IDMController\<close>)\<close>

text \<open>
  \<open>compute_acceleration(car, leading_car, distance, relative_velocity)\<close>.  The optional
  arguments \<open>leading_car\<close> and \<open>distance\<close> are options; the interaction branch is taken
  only when both are present.  The exponent \<open>delta\<close> is the float \<open>4.0\<close>, an integral
  power.

  Two divisions can meet a zero divisor.  \<open>v / v0\<close> divides the car's velocity, the
  Python float \<open>0.0\<close> of \<open>Car.__init__\<close>, by a Python float: at \<open>v0 = 0\<close> Python raises
  \<open>ZeroDivisionError\<close>, and it does so in the first cycle of every run, before
  \<open>update_car_dynamics\<close> has replaced the velocity by a numpy float.  The divisor
  \<open>2 * np.sqrt(a_max * b_max)\<close> is a numpy float, and numpy does not raise:
  \<open>np.sqrt\<close> of a negative product is \<open>nan\<close>, and so is everything computed from
  it; with a zero product the quotient is \<open>nan\<close> when \<open>v * dv\<close> is zero and infinite
  otherwise, which makes the interaction term \<open>+inf\<close>, the bracket \<open>-inf\<close>, and the
  acceleration \<open>nan\<close>, \<open>-inf\<close> or \<open>+inf\<close> as \<open>a_max\<close> is zero, positive or negative;
  \<open>np.clip\<close> turns \<open>-inf\<close> into \<open>minimum(-b_max, a_max)\<close> and \<open>+inf\<close> into \<open>a_max\<close>.
\<close>

definition compute_acceleration ::
  "IDMController \<Rightarrow> car \<Rightarrow> car option \<Rightarrow> real option \<Rightarrow> real \<Rightarrow> py_error + real" where
  "compute_acceleration ctl c leading_car distance relative_velocity =
     (let v = velocity c;
          v0 = desired_speed c * speed_multiplier c
      in if v0 = 0 then Inl ZeroDivisionError
         else
           let free_term = 1 - (v / v0) ^ delta ctl in
           case (leading_car, distance) of
             (Some l, Some d) \<Rightarrow>
               (let s0 = idm_min_gap ctl;
                    T = idm_reaction_time ctl;
                    dv = - relative_velocity;
                    q = a_max ctl * b_max ctl
                in if q < 0 then Inl NotFinite
                   else if q = 0 then
                     (if v * dv = 0 \<or> a_max ctl = 0 then Inl NotFinite
                      else if 0 < a_max ctl then Inr (min (- b_max ctl) (a_max ctl))
                      else Inr (a_max ctl))
                   else
                     let s_star = s0 + v * T + (v * dv) / (2 * sqrt q);
                         interaction_term = (s_star / max d (1 / 10)) ^ 2;
                         acceleration = a_max ctl * (free_term - interaction_term)
                     in Inr (np_clip acceleration (- b_max ctl) (a_max ctl)))
           | _ \<Rightarrow> Inr (np_clip (a_max ctl * free_term) (- b_max ctl) (a_max ctl)))"

text \<open>
  The car-following law as the specification writes it (section 4.3), for comparison
  with the function above: \<open>clamp\<close> restricts a value to an interval, \<open>desiredGap\<close> is
  the desired gap \<open>s*\<close>.
\<close>

definition clamp :: "real \<Rightarrow> real \<Rightarrow> real \<Rightarrow> real" where
  "clamp v lo hi = min (max v lo) hi"

definition desiredGap :: "real \<Rightarrow> real \<Rightarrow> real \<Rightarrow> real \<Rightarrow> real \<Rightarrow> real \<Rightarrow> real" where
  "desiredGap gap0 v T dv aMax bMax = gap0 + v * T + v * (- dv) / (2 * sqrt (aMax * bMax))"

definition spec_accel_free :: "real \<Rightarrow> real \<Rightarrow> real \<Rightarrow> real \<Rightarrow> real" where
  "spec_accel_free aMax bMax v v0 = clamp (aMax * (1 - (v / v0) ^ 4)) (- bMax) aMax"

definition spec_accel_leader ::
  "real \<Rightarrow> real \<Rightarrow> real \<Rightarrow> real \<Rightarrow> real \<Rightarrow> real \<Rightarrow> real \<Rightarrow> real \<Rightarrow> real" where
  "spec_accel_leader aMax bMax gap0 T v v0 d dv =
     clamp (aMax * (1 - (v / v0) ^ 4 - (desiredGap gap0 v T dv aMax bMax / max d (1 / 10)) ^ 2))
       (- bMax) aMax"

section \<open>Track geometry (\<open>track.py\<close>)\<close>

subsection \<open>Array primitives\<close>

text \<open>
  \<open>np.diff\<close>, \<open>np.cumsum\<close> and \<open>np.argmin\<close> on one-dimensional arrays.  \<open>np.argmin\<close>
  returns the first index of the minimum and raises \<open>ValueError\<close> on an empty array.
\<close>

definition np_diff :: "real list \<Rightarrow> real list" where
  "np_diff xs = map2 (\<lambda>b a. b - a) (tl xs) xs"

fun cumsum_from :: "real \<Rightarrow> real list \<Rightarrow> real list" where
  "cumsum_from acc [] = []"
| "cumsum_from acc (d # ds) = (acc + d) # cumsum_from (acc + d) ds"

definition np_cumsum :: "real list \<Rightarrow> real list" where
  "np_cumsum ds = cumsum_from 0 ds"

fun argmin_scan :: "real list \<Rightarrow> nat \<Rightarrow> nat \<Rightarrow> real \<Rightarrow> nat" where
  "argmin_scan [] i best_i best = best_i"
| "argmin_scan (d # ds) i best_i best =
     (if d < best then argmin_scan ds (Suc i) i d else argmin_scan ds (Suc i) best_i best)"

definition np_argmin :: "real list \<Rightarrow> py_error + nat" where
  "np_argmin ds = (case ds of [] \<Rightarrow> Inl ValueError | d # r \<Rightarrow> Inr (argmin_scan r 1 0 d))"

text \<open>The Python slice \<open>xs[a:b]\<close> for indices \<open>0 \<le> a\<close>, \<open>0 \<le> b\<close>.\<close>

definition slice :: "'a list \<Rightarrow> nat \<Rightarrow> nat \<Rightarrow> 'a list" where
  "slice xs a b = take (b - a) (drop a xs)"

text \<open>
  \<open>scipy.interpolate.interp1d(xs, ys, kind='linear', bounds_error=False,
  fill_value='extrapolate')\<close> evaluated at one point, for an abscissa array \<open>xs\<close> that is
  already in ascending order (as a cumulative arc-length table is): the index found by
  \<open>searchsorted\<close> is clipped to \<open>1 .. len(xs) - 1\<close> and the segment ending there is
  evaluated, also outside the table's range.  Where the two abscissae of that segment
  coincide the slope is a quotient by zero, and the value numpy returns is \<open>nan\<close> or
  infinite.
\<close>

definition searchsorted :: "real list \<Rightarrow> real \<Rightarrow> nat" where
  "searchsorted xs v = length (takeWhile (\<lambda>a. a < v) xs)"

definition segment_hi :: "real list \<Rightarrow> real \<Rightarrow> nat" where
  "segment_hi xs v = min (max (searchsorted xs v) 1) (length xs - 1)"

definition interp1d :: "real list \<Rightarrow> real list \<Rightarrow> real \<Rightarrow> py_error + real" where
  "interp1d xs ys x_new =
     (if length xs = length ys \<and> 2 \<le> length xs then
        let hi = segment_hi xs x_new;
            lo = hi - 1
        in if xs ! hi = xs ! lo then Inl NotFinite
           else
             let slope = (ys ! hi - ys ! lo) / (xs ! hi - xs ! lo)
             in Inr (slope * (x_new - xs ! lo) + ys ! lo)
      else Inl ValueError)"

subsection \<open>The track\<close>

record lane_curve =
  lane_xs :: "real list"
  lane_ys :: "real list"

record track =
  radius_x :: real
  radius_y :: real
  width :: real
  num_points :: nat
  num_lanes :: nat
  lane_width :: real
  centerline_x :: "real list"
  centerline_y :: "real list"
  total_length :: real
  arc_lengths :: "real list"
  lanes :: "lane_curve list"

definition segment_lengths :: "real list \<Rightarrow> real list \<Rightarrow> real list" where
  "segment_lengths cx cy = map2 (\<lambda>dx dy. sqrt (dx ^ 2 + dy ^ 2)) (np_diff cx) (np_diff cy)"

definition compute_total_length :: "real list \<Rightarrow> real list \<Rightarrow> real" where
  "compute_total_length cx cy = sum_list (segment_lengths cx cy)"

definition compute_arc_lengths :: "real list \<Rightarrow> real list \<Rightarrow> real list" where
  "compute_arc_lengths cx cy = 0 # np_cumsum (segment_lengths cx cy)"

text \<open>
  \<open>_generate_lanes\<close>: each lane is the centre line moved along its normal.  The normal
  array is extended by its last element, which raises \<open>IndexError\<close> when there is no
  segment.
\<close>

definition generate_lanes ::
  "real \<Rightarrow> real \<Rightarrow> nat \<Rightarrow> real list \<Rightarrow> real list \<Rightarrow> py_error + lane_curve list" where
  "generate_lanes w lw nl cx cy =
     (let dx = np_diff cx;
          dy = np_diff cy;
          ds = segment_lengths cx cy;
          tangent_x = map2 (\<lambda>d s. d / (s + 1 / 1000000)) dx ds;
          tangent_y = map2 (\<lambda>d s. d / (s + 1 / 1000000)) dy ds;
          normal_x = map uminus tangent_y;
          normal_y = tangent_x
      in if normal_x = [] \<or> normal_y = [] then Inl IndexError
         else
           let normal_x2 = normal_x @ [last normal_x];
               normal_y2 = normal_y @ [last normal_y]
           in Inr (map (\<lambda>lane_id.
                     let offset = - w / 2 + lw / 2 + real lane_id * lw
                     in \<lparr>lane_xs = map2 (\<lambda>c n. c + offset * n) cx normal_x2,
                         lane_ys = map2 (\<lambda>c n. c + offset * n) cy normal_y2\<rparr>)
                   [0..<nl]))"

text \<open>
  \<open>Track.__init__\<close>.  The sampled centre line \<open>(cx, cy)\<close> is computed by SciPy (a periodic
  cubic spline through the way-points, scaled by \<open>radius_x\<close> and \<open>radius_y\<close>, sampled
  at \<open>num_points\<close> parameters and smoothed); the model takes the two sample arrays
  as arguments and builds everything else from them as the source does.
\<close>

definition Track_init ::
  "real \<Rightarrow> real \<Rightarrow> real \<Rightarrow> nat \<Rightarrow> real list \<Rightarrow> real list \<Rightarrow> py_error + track" where
  "Track_init rx ry w nl cx cy =
     (if nl = 0 then Inl ZeroDivisionError
      else if length cx = length cy \<and> 0 < length cx then
        case generate_lanes w (w / real nl) nl cx cy of
          Inl e \<Rightarrow> Inl e
        | Inr ls \<Rightarrow>
            Inr \<lparr>radius_x = rx, radius_y = ry, width = w, num_points = length cx,
                 num_lanes = nl, lane_width = w / real nl,
                 centerline_x = cx, centerline_y = cy,
                 total_length = compute_total_length cx cy,
                 arc_lengths = compute_arc_lengths cx cy,
                 lanes = ls\<rparr>
      else Inl ValueError)"

text \<open>
  \<open>get_target_point(s, lookahead_distance, lane)\<close>: the point of the given lane, or of
  the centre line when no valid lane is given, at arc length
  \<open>(s % total_length + lookahead_distance) % total_length\<close>.  \<open>total_length\<close> is a
  numpy float, so the remainder by a zero length is \<open>nan\<close>, not an exception.  The
  sums and remainders are those of the real numbers: where the program rounds a sum
  to the nearest double before it takes the remainder, the model does not.
\<close>

definition centerline_point :: "track \<Rightarrow> real \<Rightarrow> py_error + (real \<times> real)" where
  "centerline_point T target_s =
     (case interp1d (arc_lengths T) (centerline_x T) target_s of
        Inl e \<Rightarrow> Inl e
      | Inr tx \<Rightarrow>
          (case interp1d (arc_lengths T) (centerline_y T) target_s of
             Inl e \<Rightarrow> Inl e
           | Inr ty \<Rightarrow> Inr (tx, ty)))"

definition lane_point :: "track \<Rightarrow> nat \<Rightarrow> real \<Rightarrow> py_error + (real \<times> real)" where
  "lane_point T l target_s =
     (if length (lanes T) \<le> l then Inl IndexError
      else
        case interp1d (arc_lengths T) (lane_xs (lanes T ! l)) target_s of
          Inl e \<Rightarrow> Inl e
        | Inr tx \<Rightarrow>
            (case interp1d (arc_lengths T) (lane_ys (lanes T ! l)) target_s of
               Inl e \<Rightarrow> Inl e
             | Inr ty \<Rightarrow> Inr (tx, ty)))"

definition get_target_point ::
  "track \<Rightarrow> real \<Rightarrow> real \<Rightarrow> int option \<Rightarrow> py_error + (real \<times> real)" where
  "get_target_point T s lookahead lane_opt =
     (if total_length T = 0 then Inl NotFinite
      else
        let s1 = py_mod s (total_length T);
            target_s = py_mod (s1 + lookahead) (total_length T)
        in case lane_opt of
             None \<Rightarrow> centerline_point T target_s
           | Some l \<Rightarrow>
               if 0 \<le> l \<and> l < int (num_lanes T) then lane_point T (nat l) target_s
               else centerline_point T target_s)"

text \<open>
  \<open>project_car_position(x, y)\<close>: a global nearest-sample search, then the same search
  again in a window of \<open>search_range\<close> samples on each side of the sample found.
  \<open>project_indices\<close> returns the index found by each of the two searches.
\<close>

definition sample_distances :: "real list \<Rightarrow> real list \<Rightarrow> real \<Rightarrow> real \<Rightarrow> real list" where
  "sample_distances cx cy px py =
     map2 (\<lambda>a b. sqrt ((a - px) ^ 2 + (b - py) ^ 2)) cx cy"

definition project_indices :: "track \<Rightarrow> real \<Rightarrow> real \<Rightarrow> py_error + (nat \<times> nat)" where
  "project_indices T px py =
     (case np_argmin (sample_distances (centerline_x T) (centerline_y T) px py) of
        Inl e \<Rightarrow> Inl e
      | Inr closest_idx \<Rightarrow>
          if length (arc_lengths T) \<le> closest_idx then Inl IndexError
          else
            let search_range = min 50 (length (arc_lengths T) div 10);
                start_idx = nat (max 0 (int closest_idx - int search_range));
                end_idx = min (length (arc_lengths T)) (closest_idx + search_range);
                local_distances =
                  sample_distances (slice (centerline_x T) start_idx end_idx)
                    (slice (centerline_y T) start_idx end_idx) px py
            in case np_argmin local_distances of
                 Inl e \<Rightarrow> Inl e
               | Inr local_closest \<Rightarrow> Inr (closest_idx, start_idx + local_closest))"

definition project_car_position :: "track \<Rightarrow> real \<Rightarrow> real \<Rightarrow> py_error + real" where
  "project_car_position T px py =
     (case project_indices T px py of
        Inl e \<Rightarrow> Inl e
      | Inr (closest_idx, refined_idx) \<Rightarrow>
          if length (arc_lengths T) \<le> refined_idx then Inl IndexError
          else Inr (arc_lengths T ! refined_idx))"

text \<open>
  \<open>first_min ds k\<close>: \<open>k\<close> is the first index at which the array \<open>ds\<close> takes its minimum.
\<close>

definition first_min :: "real list \<Rightarrow> nat \<Rightarrow> bool" where
  "first_min ds k \<longleftrightarrow>
     k < length ds \<and> (\<forall>j<length ds. ds ! k \<le> ds ! j) \<and> (\<forall>j<k. ds ! k < ds ! j)"



section \<open>Sensing, steering and the combined controller\<close>

text \<open>
  \<open>np.arctan2(y, x)\<close> on reals (signed zeros are not modelled), and
  \<open>int(np.round(v))\<close>, which rounds halves to the even neighbour.
\<close>

definition np_arctan2 :: "real \<Rightarrow> real \<Rightarrow> real" where
  "np_arctan2 b a =
     (if 0 < a then arctan (b / a)
      else if a < 0 then (if 0 \<le> b then arctan (b / a) + pi else arctan (b / a) - pi)
      else if 0 < b then pi / 2
      else if b < 0 then - (pi / 2)
      else 0)"

definition py_round :: "real \<Rightarrow> int" where
  "py_round v =
     (let f = \<lfloor>v\<rfloor> in
      if v - of_int f < 1 / 2 then f
      else if 1 / 2 < v - of_int f then f + 1
      else if even f then f else f + 1)"

text \<open>
  \<open>Car.sense_neighbors(all_cars, radius)\<close>: the other cars within the radius, each with its
  distance and the relative velocity along the line of sight, closest first.  Python's
  sort is stable, and so is \<open>sort_key\<close>.
\<close>

fun neighbor_entries :: "car \<Rightarrow> car list \<Rightarrow> real \<Rightarrow> (car \<times> real \<times> real) list" where
  "neighbor_entries c [] radius = []"
| "neighbor_entries c (other_car # rest) radius =
     (if car_id other_car = car_id c then neighbor_entries c rest radius
      else
        let dx = car_x other_car - car_x c;
            dy = car_y other_car - car_y c;
            distance = sqrt (dx ^ 2 + dy ^ 2)
        in if distance \<le> radius then
             let rel_vx = velocity other_car * cos (yaw other_car) - velocity c * cos (yaw c);
                 rel_vy = velocity other_car * sin (yaw other_car) - velocity c * sin (yaw c);
                 relative_velocity =
                   (if 0 < distance
                    then rel_vx * (dx / distance) + rel_vy * (dy / distance)
                    else 0)
             in (other_car, distance, relative_velocity) # neighbor_entries c rest radius
           else neighbor_entries c rest radius)"

definition sense_neighbors :: "car \<Rightarrow> car list \<Rightarrow> real \<Rightarrow> (car \<times> real \<times> real) list" where
  "sense_neighbors c all_cars radius =
     sort_key (\<lambda>entry. fst (snd entry)) (neighbor_entries c all_cars radius)"

text \<open>\<open>PurePursuitController.compute_steering_angle\<close>.\<close>

definition compute_steering_angle :: "PurePursuitController \<Rightarrow> car \<Rightarrow> real \<Rightarrow> real \<Rightarrow> real" where
  "compute_steering_angle pp c target_x target_y =
     (let dx = target_x - car_x c;
          dy = target_y - car_y c;
          distance = sqrt (dx ^ 2 + dy ^ 2)
      in if distance < 1 / 10 then 0
         else
           let alpha = np_arctan2 dy dx - yaw c;
               alpha2 = np_arctan2 (sin alpha) (cos alpha);
               effective_lookahead = min distance (pp_lookahead_distance pp);
               steer = np_arctan2 (2 * pp_wheelbase pp * sin alpha2) effective_lookahead;
               max_steering = 30 * pi / 180
           in np_clip steer (- max_steering) max_steering)"

text \<open>
  The projection of the vector from car \<open>c\<close> to another car onto the heading of \<open>c\<close>,
  computed in three places of the controller.
\<close>

definition forward_projection :: "car \<Rightarrow> car \<Rightarrow> real" where
  "forward_projection c other_car =
     (car_x other_car - car_x c) * cos (yaw c) + (car_y other_car - car_y c) * sin (yaw c)"

text \<open>\<open>CombinedController._check_lane_clear\<close>, with its default look-ahead of 20 m.\<close>

fun lane_clear_scan :: "car \<Rightarrow> real \<Rightarrow> car list \<Rightarrow> real \<Rightarrow> bool" where
  "lane_clear_scan c tlane [] look = True"
| "lane_clear_scan c tlane (other_car # rest) look =
     (if car_id other_car = car_id c then lane_clear_scan c tlane rest look
      else if 1 / 2 < \<bar>lane other_car - tlane\<bar> then lane_clear_scan c tlane rest look
      else if \<bar>forward_projection c other_car\<bar> < look then False
      else lane_clear_scan c tlane rest look)"

definition check_lane_clear :: "car \<Rightarrow> real \<Rightarrow> car list \<Rightarrow> bool" where
  "check_lane_clear c tlane all_cars =
     (if tlane < 0 \<or> 5 \<le> tlane then False else lane_clear_scan c tlane all_cars 20)"

text \<open>
  \<open>CombinedController._decide_lane_change\<close>: the loop that finds the nearest car ahead
  in the same lane keeps the leader found so far, with its distance and speed.
\<close>

fun find_lane_leader ::
  "car \<Rightarrow> car list \<Rightarrow> (car \<times> real \<times> real) option \<Rightarrow> (car \<times> real \<times> real) option" where
  "find_lane_leader c [] leading = leading"
| "find_lane_leader c (other_car # rest) leading =
     (if car_id other_car = car_id c then find_lane_leader c rest leading
      else if 1 / 2 < \<bar>lane other_car - lane c\<bar> then find_lane_leader c rest leading
      else
        let projection = forward_projection c other_car in
        if 0 < projection \<and> projection < 30 then
          let distance = sqrt ((car_x other_car - car_x c) ^ 2 + (car_y other_car - car_y c) ^ 2)
          in (case leading of
                None \<Rightarrow> find_lane_leader c rest (Some (other_car, distance, velocity other_car))
              | Some (lc, leading_distance, ls) \<Rightarrow>
                  if distance < leading_distance
                  then find_lane_leader c rest (Some (other_car, distance, velocity other_car))
                  else find_lane_leader c rest leading)
        else find_lane_leader c rest leading)"

definition lane_candidates :: "car \<Rightarrow> real list" where
  "lane_candidates c =
     (if lane c < 4 then [lane c + 1] else [])
     @ (if lane c < 3 then [lane c + 2] else [])
     @ (if 0 < lane c then [lane c - 1] else [])
     @ (if 1 < lane c then [lane c - 2] else [])"

definition decide_lane_change :: "car \<Rightarrow> car list \<Rightarrow> real option" where
  "decide_lane_change c all_cars =
     (if 0 < lane_change_timer c then None
      else
        case find_lane_leader c all_cars None of
          None \<Rightarrow> None
        | Some (leading_car, leading_distance, leading_speed) \<Rightarrow>
            if leading_speed < velocity c * (9 / 10)
            then find (\<lambda>candidate. check_lane_clear c candidate all_cars) (lane_candidates c)
            else None)"

text \<open>
  \<open>CombinedController.compute_control(car, track, all_cars)\<close> with its default sensing
  radius of 50 m.  The method changes the lane, the target lane and the lane-change
  timer of its own car and only reads the others; it returns the command together
  with the changed car.  The car itself is an element of \<open>all_cars\<close>, but every loop
  over \<open>all_cars\<close> skips the entries that carry the car's own \<open>car_id\<close>, so nothing of
  that entry but its identifier is ever read.
\<close>

definition smooth_lane :: "car \<Rightarrow> car" where
  "smooth_lane c =
     (let lane_diff = target_lane c - lane c;
          c2 = (if 1 / 10 < \<bar>lane_diff\<bar> then
                  (if 0 < lane_diff
                   then c\<lparr>lane := min (lane c + 1 / 10) (target_lane c)\<rparr>
                   else c\<lparr>lane := max (lane c - 1 / 10) (target_lane c)\<rparr>)
                else c\<lparr>lane := target_lane c\<rparr>)
      in c2\<lparr>lane := np_clip (lane c2) 0 4, target_lane := np_clip (target_lane c2) 0 4\<rparr>)"

definition find_leader :: "car \<Rightarrow> (car \<times> real \<times> real) list \<Rightarrow> (car \<times> real \<times> real) option" where
  "find_leader c neighbors =
     find (\<lambda>entry. \<not> 1 / 2 < \<bar>lane (fst entry) - lane c\<bar> \<and> 0 < forward_projection c (fst entry))
       neighbors"

definition compute_control :: "track \<Rightarrow> car \<Rightarrow> car list \<Rightarrow> py_error + (real \<times> real \<times> car)" where
  "compute_control T c all_cars =
     (let c1 = (case decide_lane_change c all_cars of
                  None \<Rightarrow> c
                | Some tlane \<Rightarrow> c\<lparr>target_lane := tlane, lane_change_timer := 2\<rparr>);
          c2 = smooth_lane c1;
          neighbors = sense_neighbors c2 all_cars 50
      in case (case find_leader c2 neighbors of
                 None \<Rightarrow> compute_acceleration (idm (controller c2)) c2 None None 0
               | Some (leading_car, leading_distance, leading_relative_velocity) \<Rightarrow>
                   compute_acceleration (idm (controller c2)) c2 (Some leading_car)
                     (Some leading_distance) leading_relative_velocity) of
           Inl e \<Rightarrow> Inl e
         | Inr accel \<Rightarrow>
             (case get_target_point T (s_position c2) (lookahead_distance c2)
                     (Some (py_round (lane c2))) of
                Inl e \<Rightarrow> Inl e
              | Inr (target_x, target_y) \<Rightarrow>
                  Inr (accel,
                       compute_steering_angle (pure_pursuit (controller c2)) c2 target_x target_y,
                       c2)))"

text \<open>\<open>Car.update_state(dt, track)\<close>: re-projection, lap counting and the trajectory log.\<close>

definition update_state :: "car \<Rightarrow> real \<Rightarrow> track \<Rightarrow> py_error + car" where
  "update_state c dt T =
     (case project_car_position T (car_x c) (car_y c) of
        Inl e \<Rightarrow> Inl e
      | Inr s \<Rightarrow>
          let old_s = s_position c;
              c1 = c\<lparr>s_position := s\<rparr>;
              c2 = (if total_length T * (9 / 10) < old_s \<and> s < total_length T * (1 / 10)
                    then
                      (let c1a = c1\<lparr>lap_count := lap_count c1 + 1\<rparr>;
                           c1b = (if 0 < last_lap_start_time c1a
                                  then c1a\<lparr>lap_times := lap_times c1a @ [last_lap_start_time c1a]\<rparr>
                                  else c1a)
                       in c1b\<lparr>last_lap_start_s := s, last_lap_start_time := 0\<rparr>)
                    else c1);
              c3 = c2\<lparr>last_lap_start_time := last_lap_start_time c2 + dt\<rparr>
          in Inr (c3\<lparr>trajectory := trajectory c3 @
                     [\<lparr>tp_x = car_x c3, tp_y = car_y c3, tp_yaw = yaw c3,
                       tp_velocity = velocity c3, tp_acceleration = acceleration c3,
                       tp_s_position = s_position c3, tp_lap = lap_count c3\<rparr>]\<rparr>))"

section \<open>Collision detection (\<open>collision.py\<close>)\<close>

record collision_event =
  ev_timestamp :: real
  ev_car_id1 :: nat
  ev_car_id2 :: nat
  ev_x :: real
  ev_y :: real
  ev_lap :: nat
  ev_severity :: real

record CollisionDetector =
  collision_radius :: real
  collisions :: "collision_event list"

definition CollisionDetector_init :: "real \<Rightarrow> CollisionDetector" where
  "CollisionDetector_init r = \<lparr>collision_radius = r, collisions = []\<rparr>"

text \<open>
  \<open>check_collisions(cars, timestamp)\<close>.  The car objects are shared with the caller
  and are changed in place, so the loops run over the indices of the list and keep
  the list as state, together with the events recorded in this call and the set
  \<open>collision_pairs\<close> of identifier pairs already reported in this call.
\<close>

record check_state =
  cs_cars :: "car list"
  cs_new_collisions :: "collision_event list"
  cs_collision_pairs :: "(nat \<times> nat) list"

definition pair_key :: "nat \<Rightarrow> nat \<Rightarrow> nat \<times> nat" where
  "pair_key a b = (min a b, max a b)"

definition car_distance :: "car \<Rightarrow> car \<Rightarrow> real" where
  "car_distance car1 car2 = sqrt ((car_x car1 - car_x car2) ^ 2 + (car_y car1 - car_y car2) ^ 2)"

definition relative_speed :: "car \<Rightarrow> car \<Rightarrow> real" where
  "relative_speed car1 car2 =
     (let v1x = velocity car1 * cos (yaw car1);
          v1y = velocity car1 * sin (yaw car1);
          v2x = velocity car2 * cos (yaw car2);
          v2y = velocity car2 * sin (yaw car2);
          rel_vx = v2x - v1x;
          rel_vy = v2y - v1y
      in sqrt (rel_vx ^ 2 + rel_vy ^ 2))"

definition make_event :: "real \<Rightarrow> car \<Rightarrow> car \<Rightarrow> collision_event" where
  "make_event t car1 car2 =
     \<lparr>ev_timestamp = t, ev_car_id1 = car_id car1, ev_car_id2 = car_id car2,
      ev_x = (car_x car1 + car_x car2) / 2, ev_y = (car_y car1 + car_y car2) / 2,
      ev_lap = min (lap_count car1) (lap_count car2),
      ev_severity = relative_speed car1 car2\<rparr>"

definition record_hit :: "real \<Rightarrow> car \<Rightarrow> car" where
  "record_hit severity c =
     c\<lparr>collision_count := collision_count c + 1,
       total_collision_severity := total_collision_severity c + severity\<rparr>"

text \<open>The body of the inner loop, for \<open>car1 = cars[i]\<close> and \<open>car2 = cars[j]\<close>.\<close>

definition collide_pair :: "real \<Rightarrow> real \<Rightarrow> nat \<Rightarrow> nat \<Rightarrow> check_state \<Rightarrow> check_state" where
  "collide_pair radius t i j st =
     (let car1 = cs_cars st ! i;
          car2 = cs_cars st ! j
      in if eliminated car2 then st
         else
           let pair = pair_key (car_id car1) (car_id car2) in
           if pair \<in> set (cs_collision_pairs st) then st
           else if car_distance car1 car2 < radius then
             let severity = relative_speed car1 car2;
                 collision_event = make_event t car1 car2;
                 cars1 = (cs_cars st)[i := record_hit severity car1];
                 cars2 = cars1[j := record_hit severity (cars1 ! j)];
                 cars3 = cars2[i := (cars2 ! i)\<lparr>collision_flag := True\<rparr>];
                 cars4 = cars3[j := (cars3 ! j)\<lparr>collision_flag := True\<rparr>]
             in \<lparr>cs_cars = cars4,
                 cs_new_collisions = cs_new_collisions st @ [collision_event],
                 cs_collision_pairs = cs_collision_pairs st @ [pair]\<rparr>
           else st)"

fun check_inner :: "real \<Rightarrow> real \<Rightarrow> nat \<Rightarrow> nat list \<Rightarrow> check_state \<Rightarrow> check_state" where
  "check_inner radius t i [] st = st"
| "check_inner radius t i (j # js) st = check_inner radius t i js (collide_pair radius t i j st)"

fun check_outer :: "real \<Rightarrow> real \<Rightarrow> nat list \<Rightarrow> check_state \<Rightarrow> check_state" where
  "check_outer radius t [] st = st"
| "check_outer radius t (i # is) st =
     check_outer radius t is
       (if eliminated (cs_cars st ! i) then st
        else check_inner radius t i [Suc i..<length (cs_cars st)] st)"

definition check_collisions ::
  "CollisionDetector \<Rightarrow> car list \<Rightarrow> real
     \<Rightarrow> collision_event list \<times> CollisionDetector \<times> car list" where
  "check_collisions det cars t =
     (let st = check_outer (collision_radius det) t [0..<length cars]
                 \<lparr>cs_cars = cars, cs_new_collisions = [], cs_collision_pairs = []\<rparr>
      in (cs_new_collisions st,
          det\<lparr>collisions := collisions det @ cs_new_collisions st\<rparr>,
          cs_cars st))"

text \<open>\<open>compute_near_misses(cars, timestamp, ttc_threshold)\<close> only reads the cars.\<close>

definition near_miss :: "real \<Rightarrow> car \<Rightarrow> car \<Rightarrow> bool" where
  "near_miss ttc_threshold car1 car2 =
     (let dx = car_x car2 - car_x car1;
          dy = car_y car2 - car_y car1;
          distance = sqrt (dx ^ 2 + dy ^ 2)
      in if distance < 10 then
           let rel_vx = velocity car2 * cos (yaw car2) - velocity car1 * cos (yaw car1);
               rel_vy = velocity car2 * sin (yaw car2) - velocity car1 * sin (yaw car1)
           in if 1 / 10 < distance then
                let rel_v = (dx * rel_vx + dy * rel_vy) / distance in
                if rel_v < 0 then
                  (let ttc = distance / \<bar>rel_v\<bar> in 0 < ttc \<and> ttc < ttc_threshold)
                else False
              else False
         else False)"

fun compute_near_misses :: "car list \<Rightarrow> real \<Rightarrow> nat" where
  "compute_near_misses [] ttc_threshold = 0"
| "compute_near_misses (car1 # rest) ttc_threshold =
     length (filter (near_miss ttc_threshold car1) rest) + compute_near_misses rest ttc_threshold"

text \<open>
  Notions used to state what one call reports.  \<open>ev_pair\<close> is the unordered identifier
  pair of an event, as the source forms it with \<open>tuple(sorted(...))\<close>; \<open>involves k e\<close>
  says that the car with identifier \<open>k\<close> takes part in event \<open>e\<close>; \<open>colliding\<close> is
  the test the two loops apply to a pair of cars.  \<open>colliding_events\<close> lists, in the
  order of the loops, one event for every pair of positions \<open>i < j\<close> of the roster
  whose cars collide.
\<close>

definition ev_pair :: "collision_event \<Rightarrow> nat \<times> nat" where
  "ev_pair e = pair_key (ev_car_id1 e) (ev_car_id2 e)"

definition involves :: "nat \<Rightarrow> collision_event \<Rightarrow> bool" where
  "involves k e \<longleftrightarrow> ev_car_id1 e = k \<or> ev_car_id2 e = k"

definition colliding :: "real \<Rightarrow> car \<Rightarrow> car \<Rightarrow> bool" where
  "colliding radius car1 car2 \<longleftrightarrow>
     \<not> eliminated car1 \<and> \<not> eliminated car2 \<and> car_distance car1 car2 < radius"

definition colliding_row :: "real \<Rightarrow> real \<Rightarrow> car list \<Rightarrow> nat \<Rightarrow> nat list \<Rightarrow> collision_event list" where
  "colliding_row radius t cars i js =
     map (\<lambda>j. make_event t (cars ! i) (cars ! j))
       (filter (\<lambda>j. colliding radius (cars ! i) (cars ! j)) js)"

definition colliding_events :: "real \<Rightarrow> real \<Rightarrow> car list \<Rightarrow> collision_event list" where
  "colliding_events radius t cars =
     concat (map (\<lambda>i. colliding_row radius t cars i [Suc i..<length cars]) [0..<length cars])"

text \<open>
  Attributes of a car that \<open>check_collisions\<close> never writes: those it reads, and the
  elimination time.
\<close>

definition static ::
  "car \<Rightarrow> nat \<times> real \<times> real \<times> real \<times> real \<times> bool \<times> nat \<times> real option" where
  "static c =
     (car_id c, car_x c, car_y c, yaw c, velocity c, eliminated c, lap_count c,
      elimination_time c)"

text \<open>
  What the body of the inner loop does to the roster when it records a collision of
  the cars at positions \<open>i\<close> and \<open>j\<close>, and the invariant of the two loops: the
  attributes the pass reads are those of the roster \<open>cs0\<close> it started from, the set of
  reported pairs is that of the recorded events, and every car's collision count and
  cumulative severity have grown by the events the car takes part in.
\<close>

definition bump :: "real \<Rightarrow> nat \<Rightarrow> nat \<Rightarrow> car list \<Rightarrow> car list" where
  "bump s i j cs =
     (let cars1 = cs[i := record_hit s (cs ! i)];
          cars2 = cars1[j := record_hit s (cars1 ! j)];
          cars3 = cars2[i := (cars2 ! i)\<lparr>collision_flag := True\<rparr>]
      in cars3[j := (cars3 ! j)\<lparr>collision_flag := True\<rparr>])"

definition tally :: "car list \<Rightarrow> car list \<Rightarrow> collision_event list \<Rightarrow> bool" where
  "tally cs0 cs evs \<longleftrightarrow>
     (\<forall>k<length cs0.
        collision_count (cs ! k)
          = collision_count (cs0 ! k) + length (filter (involves (car_id (cs0 ! k))) evs)
        \<and> total_collision_severity (cs ! k)
          = total_collision_severity (cs0 ! k)
            + sum_list (map ev_severity (filter (involves (car_id (cs0 ! k))) evs)))"

definition pass_inv :: "car list \<Rightarrow> check_state \<Rightarrow> bool" where
  "pass_inv cs0 st \<longleftrightarrow>
     map static (cs_cars st) = map static cs0
     \<and> cs_collision_pairs st = map ev_pair (cs_new_collisions st)
     \<and> tally cs0 (cs_cars st) (cs_new_collisions st)"

definition dedup_inv :: "check_state \<Rightarrow> bool" where
  "dedup_inv st \<longleftrightarrow>
     cs_collision_pairs st = map ev_pair (cs_new_collisions st)
     \<and> distinct (cs_collision_pairs st)"

text \<open>
  The collision pass as the specification words it, for comparison with the loops
  above: the velocity vector of a vehicle is its speed along its heading; the severity
  of a collision is the magnitude of the difference of the two velocity vectors; two
  vehicles collide when neither is eliminated and their distance in the plane is
  below the collision radius.  \<open>spec_collisions\<close> lists, for every pair of positions
  \<open>i < j\<close> of the roster whose vehicles collide, the two identifiers and the severity.
  \<open>ev_triple\<close> reads the same three values off a recorded event.
\<close>

definition velocity_vector :: "car \<Rightarrow> real \<times> real" where
  "velocity_vector c = (velocity c * cos (yaw c), velocity c * sin (yaw c))"

definition spec_severity :: "car \<Rightarrow> car \<Rightarrow> real" where
  "spec_severity c1 c2 =
     sqrt ((fst (velocity_vector c2) - fst (velocity_vector c1)) ^ 2
           + (snd (velocity_vector c2) - snd (velocity_vector c1)) ^ 2)"

definition spec_collides :: "real \<Rightarrow> car \<Rightarrow> car \<Rightarrow> bool" where
  "spec_collides radius c1 c2 \<longleftrightarrow>
     \<not> eliminated c1 \<and> \<not> eliminated c2
     \<and> sqrt ((car_x c1 - car_x c2) ^ 2 + (car_y c1 - car_y c2) ^ 2) < radius"

definition spec_collisions :: "real \<Rightarrow> car list \<Rightarrow> (nat \<times> nat \<times> real) list" where
  "spec_collisions radius cars =
     concat (map (\<lambda>i. map (\<lambda>j. (car_id (cars ! i), car_id (cars ! j),
                                 spec_severity (cars ! i) (cars ! j)))
                          (filter (\<lambda>j. spec_collides radius (cars ! i) (cars ! j))
                             [Suc i..<length cars]))
               [0..<length cars])"

definition ev_triple :: "collision_event \<Rightarrow> nat \<times> nat \<times> real" where
  "ev_triple e = (ev_car_id1 e, ev_car_id2 e, ev_severity e)"

section \<open>The fixed-timestep scheduler (\<open>simulation.py\<close>)\<close>

text \<open>
  The state of a \<open>RacingSimulation\<close>.  Visualisation and the telemetry files are left
  out (the run modelled is the one without a window); what \<open>_log_telemetry\<close> does to
  the cars is kept.  \<open>eliminated_cars\<close> holds references to cars of the roster, here
  their positions in it.  \<open>all_collisions\<close> is the local list of \<open>run\<close>.  The random
  numbers drawn from NumPy's global generator are an argument of the model: \<open>rng\<close> is
  the sequence of uniform samples and \<open>rng_pos\<close> counts the samples used.
\<close>

record RacingSimulation =
  sim_cars :: "car list"
  sim_track :: track
  collision_detector :: CollisionDetector
  sim_dt :: real
  target_laps :: nat
  time_limit :: real
  ttc_threshold :: real
  timestamp :: real
  near_misses :: nat
  eliminated_cars :: "nat list"
  elimination_enabled :: bool
  elimination_chance :: int
  all_collisions :: "collision_event list"
  rng :: "nat \<Rightarrow> real"
  rng_pos :: nat

text \<open>
  \<open>RacingSimulation.__init__\<close>, given the track and the cars it builds.  The
  \<open>elimination\<close> section of the configuration and its keys are optional:
  \<open>elim_config.get('enabled', True)\<close> and \<open>elim_config.get('elimination_chance', 6)\<close>.
\<close>

definition RacingSimulation_init ::
  "config \<Rightarrow> track \<Rightarrow> car list \<Rightarrow> (nat \<Rightarrow> real) \<Rightarrow> RacingSimulation" where
  "RacingSimulation_init cfg T cars g =
     (let sc = cfg_simulation cfg in
      \<lparr>sim_cars = cars, sim_track = T,
       collision_detector = CollisionDetector_init (cfg_collision_radius sc),
       sim_dt = cfg_dt sc, target_laps = cfg_laps sc, time_limit = cfg_time_limit sc,
       ttc_threshold = cfg_near_miss_ttc_threshold sc,
       timestamp = 0, near_misses = 0, eliminated_cars = [],
       elimination_enabled =
         (case cfg_elimination sc of
            None \<Rightarrow> True
          | Some ec \<Rightarrow> (case cfg_enabled ec of None \<Rightarrow> True | Some b \<Rightarrow> b)),
       elimination_chance =
         (case cfg_elimination sc of
            None \<Rightarrow> 6
          | Some ec \<Rightarrow> (case cfg_elimination_chance ec of None \<Rightarrow> 6 | Some n \<Rightarrow> n)),
       all_collisions = [], rng = g, rng_pos = 0\<rparr>)"

text \<open>\<open>np.random.randint(1, 11)\<close>: a number from 1 to 10, from the next uniform sample.\<close>

definition randint_1_11 :: "(nat \<Rightarrow> real) \<Rightarrow> nat \<Rightarrow> int" where
  "randint_1_11 g k = 1 + \<lfloor>frac (g k) * 10\<rfloor>"

text \<open>
  \<open>_check_eliminations(new_collisions)\<close>.  For each event the two cars are looked up by
  identifier (the first car of the roster that carries it); a car that is found and
  not yet eliminated rolls, and is eliminated when the roll is below the threshold.
\<close>

definition find_car :: "car list \<Rightarrow> nat \<Rightarrow> nat option" where
  "find_car cars cid = find (\<lambda>k. car_id (cars ! k) = cid) [0..<length cars]"

definition roll_elimination :: "nat \<Rightarrow> RacingSimulation \<Rightarrow> RacingSimulation" where
  "roll_elimination cid sim =
     (case find_car (sim_cars sim) cid of
        None \<Rightarrow> sim
      | Some i \<Rightarrow>
          if eliminated (sim_cars sim ! i) then sim
          else
            let roll = randint_1_11 (rng sim) (rng_pos sim);
                sim1 = sim\<lparr>rng_pos := Suc (rng_pos sim)\<rparr>
            in if roll < elimination_chance sim1 then
                 sim1\<lparr>sim_cars := (sim_cars sim1)
                        [i := (sim_cars sim1 ! i)
                           \<lparr>eliminated := True,
                            elimination_time := Some (timestamp sim1),
                            elimination_reason :=
                              Some (Eliminated_after_collision roll (elimination_chance sim1)),
                            velocity := 0\<rparr>],
                      eliminated_cars := eliminated_cars sim1 @ [i]\<rparr>
               else sim1)"

fun check_eliminations :: "RacingSimulation \<Rightarrow> collision_event list \<Rightarrow> RacingSimulation" where
  "check_eliminations sim [] = sim"
| "check_eliminations sim (collision # rest) =
     check_eliminations
       (roll_elimination (ev_car_id2 collision) (roll_elimination (ev_car_id1 collision) sim))
       rest"

text \<open>
  The body of the loop over the cars in \<open>run\<close>, for the car at position \<open>i\<close>: the
  lane-change timer, the controller, the integrator and the re-projection.  The list
  \<open>active_cars\<close> is built from the roster as it is at that moment: it holds the very
  car objects of the roster, so the controller sees every car in its current state.
  Besides the changed roster the model returns the command \<open>(acceleration,
  steering_angle)\<close> computed for the car.
\<close>

definition tick_timer :: "real \<Rightarrow> car \<Rightarrow> car" where
  "tick_timer dt c =
     (if 0 < lane_change_timer c then c\<lparr>lane_change_timer := lane_change_timer c - dt\<rparr> else c)"

definition update_car ::
  "track \<Rightarrow> real \<Rightarrow> car list \<Rightarrow> nat \<Rightarrow> py_error + ((real \<times> real) \<times> car list)" where
  "update_car T dt cars i =
     (let cars1 = cars[i := tick_timer dt (cars ! i)];
          active_cars = filter (\<lambda>c. \<not> eliminated c) cars1
      in case compute_control T (cars1 ! i) active_cars of
           Inl e \<Rightarrow> Inl e
         | Inr (accel, steering_angle, car2) \<Rightarrow>
             (case update_state (update_car_dynamics car2 accel steering_angle dt) dt T of
                Inl e \<Rightarrow> Inl e
              | Inr car4 \<Rightarrow> Inr ((accel, steering_angle), cars1[i := car4])))"

fun update_cars ::
  "track \<Rightarrow> real \<Rightarrow> nat list \<Rightarrow> car list \<Rightarrow> (real \<times> real) list
     \<Rightarrow> py_error + ((real \<times> real) list \<times> car list)" where
  "update_cars T dt [] cars commands = Inr (commands, cars)"
| "update_cars T dt (i # is) cars commands =
     (if eliminated (cars ! i) then update_cars T dt is cars commands
      else
        case update_car T dt cars i of
          Inl e \<Rightarrow> Inl e
        | Inr (command, cars') \<Rightarrow> update_cars T dt is cars' (commands @ [command]))"

text \<open>
  One pass of the \<open>for step in range(max_steps)\<close> loop.  The result says whether the
  loop goes on (\<open>True\<close>) or leaves through one of its \<open>break\<close>s.
\<close>

definition sim_step :: "RacingSimulation \<Rightarrow> nat \<Rightarrow> py_error + (bool \<times> RacingSimulation)" where
  "sim_step sim step =
     (let sim1 = sim\<lparr>timestamp := real step * sim_dt sim\<rparr>;
          active_cars = filter (\<lambda>c. \<not> eliminated c) (sim_cars sim1)
      in if active_cars = [] then Inr (False, sim1)
         else if list_all (\<lambda>c. target_laps sim1 \<le> lap_count c) active_cars
         then Inr (False, sim1)
         else
           case update_cars (sim_track sim1) (sim_dt sim1) [0..<length (sim_cars sim1)]
                  (sim_cars sim1) [] of
             Inl e \<Rightarrow> Inl e
           | Inr (commands, cars1) \<Rightarrow>
               (case check_collisions (collision_detector sim1) cars1 (timestamp sim1) of
                  (new_collisions, det, cars2) \<Rightarrow>
                    let sim2 = sim1\<lparr>sim_cars := cars2, collision_detector := det,
                                 all_collisions := all_collisions sim1 @ new_collisions\<rparr>;
                        sim3 = (if elimination_enabled sim2
                                then check_eliminations sim2 new_collisions else sim2);
                        sim4 = sim3\<lparr>near_misses := near_misses sim3
                                 + compute_near_misses
                                     (filter (\<lambda>c. \<not> eliminated c) (sim_cars sim3))
                                     (ttc_threshold sim3)\<rparr>
                    in Inr (True,
                            sim4\<lparr>sim_cars :=
                                   map (\<lambda>c. c\<lparr>collision_flag := False\<rparr>) (sim_cars sim4)\<rparr>)))"

fun run_loop :: "RacingSimulation \<Rightarrow> nat list \<Rightarrow> py_error + RacingSimulation" where
  "run_loop sim [] = Inr sim"
| "run_loop sim (step # steps) =
     (case sim_step sim step of
        Inl e \<Rightarrow> Inl e
      | Inr (go_on, sim') \<Rightarrow> if go_on then run_loop sim' steps else Inr sim')"

text \<open>
  \<open>run\<close>: \<open>max_steps = int(time_limit / dt)\<close> passes at most.  The division raises for
  \<open>dt = 0\<close>; \<open>range\<close> of a negative number is empty.
\<close>

definition run :: "RacingSimulation \<Rightarrow> py_error + RacingSimulation" where
  "run sim =
     (if sim_dt sim = 0 then Inl ZeroDivisionError
      else run_loop sim [0..<nat \<lfloor>time_limit sim / sim_dt sim\<rfloor>])"

text \<open>
  The reference loop of the specification (sections 3 and 4.5): a snapshot of the
  active vehicles is taken at the start of the cycle, and every controller reads the
  other vehicles from that snapshot.  Everything else is as in \<open>update_car\<close> and
  \<open>update_cars\<close>.
\<close>

definition update_car_snapshot ::
  "track \<Rightarrow> real \<Rightarrow> car list \<Rightarrow> car list \<Rightarrow> nat
     \<Rightarrow> py_error + ((real \<times> real) \<times> car list)" where
  "update_car_snapshot T dt snapshot cars i =
     (let cars1 = cars[i := tick_timer dt (cars ! i)]
      in case compute_control T (cars1 ! i) snapshot of
           Inl e \<Rightarrow> Inl e
         | Inr (accel, steering_angle, car2) \<Rightarrow>
             (case update_state (update_car_dynamics car2 accel steering_angle dt) dt T of
                Inl e \<Rightarrow> Inl e
              | Inr car4 \<Rightarrow> Inr ((accel, steering_angle), cars1[i := car4])))"

fun update_cars_snapshot ::
  "track \<Rightarrow> real \<Rightarrow> car list \<Rightarrow> nat list \<Rightarrow> car list \<Rightarrow> (real \<times> real) list
     \<Rightarrow> py_error + ((real \<times> real) list \<times> car list)" where
  "update_cars_snapshot T dt snapshot [] cars commands = Inr (commands, cars)"
| "update_cars_snapshot T dt snapshot (i # is) cars commands =
     (if eliminated (cars ! i) then update_cars_snapshot T dt snapshot is cars commands
      else
        case update_car_snapshot T dt snapshot cars i of
          Inl e \<Rightarrow> Inl e
        | Inr (command, cars') \<Rightarrow>
            update_cars_snapshot T dt snapshot is cars' (commands @ [command]))"

text \<open>
  The commands of one cycle: those the loop of \<open>run\<close> computes, and those of the
  reference loop.
\<close>

definition cycle_commands :: "track \<Rightarrow> real \<Rightarrow> car list \<Rightarrow> py_error + (real \<times> real) list" where
  "cycle_commands T dt cars =
     (case update_cars T dt [0..<length cars] cars [] of
        Inl e \<Rightarrow> Inl e
      | Inr (commands, cars') \<Rightarrow> Inr commands)"

definition snapshot_commands :: "track \<Rightarrow> real \<Rightarrow> car list \<Rightarrow> py_error + (real \<times> real) list" where
  "snapshot_commands T dt cars =
     (case update_cars_snapshot T dt (filter (\<lambda>c. \<not> eliminated c) cars)
             [0..<length cars] cars [] of
        Inl e \<Rightarrow> Inl e
      | Inr (commands, cars') \<Rightarrow> Inr commands)"

text \<open>
  What the loop of \<open>run\<close> does instead: the controller of the car at position \<open>i\<close>
  reads the roster in which the cars before position \<open>i\<close> are in their end-of-cycle
  state and the cars from position \<open>i\<close> on in their start-of-cycle state.
  \<open>command_at\<close> is the command \<open>update_car\<close> computes for position \<open>i\<close> of a
  roster.
\<close>

definition roster_at :: "car list \<Rightarrow> car list \<Rightarrow> nat \<Rightarrow> car list" where
  "roster_at cars_start cars_end i = take i cars_end @ drop i cars_start"

definition command_at :: "track \<Rightarrow> real \<Rightarrow> car list \<Rightarrow> nat \<Rightarrow> (real \<times> real) option" where
  "command_at T dt cars i =
     (case update_car T dt cars i of Inl e \<Rightarrow> None | Inr (command, cars') \<Rightarrow> Some command)"

section \<open>Strategy transitions (\<open>markov_chain.py\<close>)\<close>

text \<open>
  The transition matrix is a dictionary of dictionaries; each row lists the four
  states in the order \<open>aggressive\<close>, \<open>balanced\<close>, \<open>cautious\<close>, \<open>eliminated\<close>.
\<close>

definition base_transition_matrix :: "string \<Rightarrow> (string \<times> real) list option" where
  "base_transition_matrix s =
     (if s = ''aggressive'' then
        Some [(''aggressive'', 7 / 10), (''balanced'', 2 / 10), (''cautious'', 5 / 100),
              (''eliminated'', 5 / 100)]
      else if s = ''balanced'' then
        Some [(''aggressive'', 1 / 10), (''balanced'', 8 / 10), (''cautious'', 8 / 100),
              (''eliminated'', 2 / 100)]
      else if s = ''cautious'' then
        Some [(''aggressive'', 5 / 100), (''balanced'', 15 / 100), (''cautious'', 75 / 100),
              (''eliminated'', 5 / 100)]
      else if s = ''eliminated'' then
        Some [(''aggressive'', 0), (''balanced'', 0), (''cautious'', 0), (''eliminated'', 1)]
      else None)"

definition prob :: "(string \<times> real) list \<Rightarrow> string \<Rightarrow> real" where
  "prob ps k = (case map_of ps k of None \<Rightarrow> 0 | Some v \<Rightarrow> v)"

definition set_prob :: "string \<Rightarrow> real \<Rightarrow> (string \<times> real) list \<Rightarrow> (string \<times> real) list" where
  "set_prob k v ps = map (\<lambda>entry. if fst entry = k then (k, v) else entry) ps"

text \<open>
  \<open>_update_transition_probabilities(car, all_cars)\<close>.  It returns nothing (\<open>None\<close>) for
  a car whose strategy is \<open>eliminated\<close>, and raises \<open>KeyError\<close> for a strategy name
  that is not a state.
\<close>

definition update_transition_probabilities :: "car \<Rightarrow> py_error + (string \<times> real) list option" where
  "update_transition_probabilities c =
     (let current_state = strategy_type c in
      if current_state = ''eliminated'' then Inr None
      else
        let collision_rate = real (collision_count c) / real (max (lap_count c) 1);
            avg_speed = (if trajectory c = [] then 0
                         else sum_list (map tp_velocity (trajectory c))
                              / real (length (trajectory c)))
        in case base_transition_matrix current_state of
             None \<Rightarrow> Inl KeyError
           | Some base \<Rightarrow>
               let probs =
                     (if 1 / 2 < collision_rate then
                        (let p1 = set_prob ''eliminated''
                                    (min (3 / 10) (prob base ''eliminated'' * 2)) base;
                             p2 = set_prob ''cautious''
                                    (min (4 / 10) (prob p1 ''cautious'' * 2)) p1
                         in set_prob ''aggressive''
                              (max 0 (prob p2 ''aggressive'' * (1 / 2))) p2)
                      else if collision_rate < 1 / 10 \<and> desired_speed c * (9 / 10) < avg_speed
                      then
                        (let p1 = set_prob ''aggressive''
                                    (min (3 / 10) (prob base ''aggressive'' * (3 / 2))) base
                         in set_prob ''eliminated''
                              (max 0 (prob p1 ''eliminated'' * (1 / 2))) p1)
                      else base);
                   total = sum_list (map snd probs)
               in Inr (Some (if 0 < total
                             then map (\<lambda>entry. (fst entry, snd entry / total)) probs
                             else probs)))"

text \<open>
  \<open>np.random.choice(states, p=probs)\<close>, given the uniform sample \<open>u\<close> it draws: the
  probabilities must not be negative and must sum to one; the state chosen is the
  first whose cumulative probability exceeds \<open>u\<close>.
\<close>

definition choice :: "string list \<Rightarrow> real list \<Rightarrow> real \<Rightarrow> py_error + string" where
  "choice states ps u =
     (if length states = length ps \<and> list_all (\<lambda>p. 0 \<le> p) ps \<and> sum_list ps = 1 then
        (let idx = length (takeWhile (\<lambda>c. c \<le> u) (np_cumsum ps))
         in if idx < length states then Inr (states ! idx) else Inl IndexError)
      else Inl ValueError)"

text \<open>\<open>_transition_state(car, all_cars)\<close>, given the uniform sample drawn by the choice.\<close>

definition transition_state :: "config \<Rightarrow> car \<Rightarrow> real \<Rightarrow> py_error + car" where
  "transition_state cfg c u =
     (if eliminated c then Inr (c\<lparr>strategy_type := ''eliminated''\<rparr>)
      else
        case update_transition_probabilities c of
          Inl e \<Rightarrow> Inl e
        | Inr None \<Rightarrow> Inl AttributeError
        | Inr (Some transition_probs) \<Rightarrow>
            (case choice (map fst transition_probs) (map snd transition_probs) u of
               Inl e \<Rightarrow> Inl e
             | Inr next_state \<Rightarrow>
                 if next_state \<noteq> strategy_type c \<and> next_state \<noteq> ''eliminated'' then
                   (let c1 = c\<lparr>strategy_type := next_state\<rparr>;
                        c2 = (if next_state = ''aggressive'' then
                                c1\<lparr>speed_multiplier := 12 / 10, min_gap := min_gap c1 * (8 / 10)\<rparr>
                              else if next_state = ''balanced'' then
                                c1\<lparr>speed_multiplier := 1\<rparr>
                              else if next_state = ''cautious'' then
                                c1\<lparr>speed_multiplier := 9 / 10, min_gap := min_gap c1 * (12 / 10)\<rparr>
                              else c1)
                    in case CombinedController_init cfg next_state of
                         Inl e \<Rightarrow> Inl e
                       | Inr ctl \<Rightarrow> Inr (c2\<lparr>controller := ctl\<rparr>))
                 else if next_state = ''eliminated'' then
                   Inr (c\<lparr>eliminated := True, elimination_time := None,
                          elimination_reason := Some Markov_Chain_state_transition\<rparr>)
                 else Inr c))"

text \<open>
  The loop over the cars in \<open>run_with_markov\<close>: as in \<open>run\<close>, with the strategy
  transition on every twentieth step and a second test of the elimination flag after
  it.  The loop draws from the random source, so the position in it is part of the
  loop's state.
\<close>

fun markov_update_cars ::
  "config \<Rightarrow> track \<Rightarrow> real \<Rightarrow> nat \<Rightarrow> (nat \<Rightarrow> real) \<Rightarrow> nat list \<Rightarrow> car list \<Rightarrow> nat
     \<Rightarrow> py_error + (car list \<times> nat)" where
  "markov_update_cars cfg T dt step g [] cars pos = Inr (cars, pos)"
| "markov_update_cars cfg T dt step g (i # is) cars pos =
     (if eliminated (cars ! i) then markov_update_cars cfg T dt step g is cars pos
      else
        let cars1 = cars[i := tick_timer dt (cars ! i)] in
        case (if step mod 20 = 0
              then (case transition_state cfg (cars1 ! i) (frac (g pos)) of
                      Inl e \<Rightarrow> Inl e
                    | Inr c \<Rightarrow> Inr (cars1[i := c], Suc pos))
              else Inr (cars1, pos)) of
          Inl e \<Rightarrow> Inl e
        | Inr (cars2, pos2) \<Rightarrow>
            if eliminated (cars2 ! i) then markov_update_cars cfg T dt step g is cars2 pos2
            else
              (case compute_control T (cars2 ! i) (filter (\<lambda>c. \<not> eliminated c) cars2) of
                 Inl e \<Rightarrow> Inl e
               | Inr (accel, steering_angle, car2) \<Rightarrow>
                   (case update_state (update_car_dynamics car2 accel steering_angle dt) dt T of
                      Inl e \<Rightarrow> Inl e
                    | Inr car4 \<Rightarrow>
                        markov_update_cars cfg T dt step g is (cars2[i := car4]) pos2)))"

definition markov_step ::
  "config \<Rightarrow> RacingSimulation \<Rightarrow> nat \<Rightarrow> py_error + (bool \<times> RacingSimulation)" where
  "markov_step cfg sim step =
     (let sim1 = sim\<lparr>timestamp := real step * sim_dt sim\<rparr>;
          active_cars = filter (\<lambda>c. \<not> eliminated c) (sim_cars sim1)
      in if active_cars = [] then Inr (False, sim1)
         else if list_all (\<lambda>c. target_laps sim1 \<le> lap_count c) active_cars
         then Inr (False, sim1)
         else
           case markov_update_cars cfg (sim_track sim1) (sim_dt sim1) step (rng sim1)
                  [0..<length (sim_cars sim1)] (sim_cars sim1) (rng_pos sim1) of
             Inl e \<Rightarrow> Inl e
           | Inr (cars1, pos1) \<Rightarrow>
               (case check_collisions (collision_detector sim1) cars1 (timestamp sim1) of
                  (new_collisions, det, cars2) \<Rightarrow>
                    let sim2 = sim1\<lparr>sim_cars := cars2, collision_detector := det,
                                 all_collisions := all_collisions sim1 @ new_collisions,
                                 rng_pos := pos1\<rparr>;
                        sim3 = (if elimination_enabled sim2
                                then check_eliminations sim2 new_collisions else sim2);
                        sim4 = sim3\<lparr>near_misses := near_misses sim3
                                 + compute_near_misses
                                     (filter (\<lambda>c. \<not> eliminated c) (sim_cars sim3))
                                     (ttc_threshold sim3)\<rparr>
                    in Inr (True,
                            sim4\<lparr>sim_cars :=
                                   map (\<lambda>c. c\<lparr>collision_flag := False\<rparr>) (sim_cars sim4)\<rparr>)))"

fun markov_loop :: "config \<Rightarrow> RacingSimulation \<Rightarrow> nat list \<Rightarrow> py_error + RacingSimulation" where
  "markov_loop cfg sim [] = Inr sim"
| "markov_loop cfg sim (step # steps) =
     (case markov_step cfg sim step of
        Inl e \<Rightarrow> Inl e
      | Inr (go_on, sim') \<Rightarrow> if go_on then markov_loop cfg sim' steps else Inr sim')"

definition run_with_markov :: "config \<Rightarrow> RacingSimulation \<Rightarrow> py_error + RacingSimulation" where
  "run_with_markov cfg sim =
     (if sim_dt sim = 0 then Inl ZeroDivisionError
      else markov_loop cfg sim [0..<nat \<lfloor>time_limit sim / sim_dt sim\<rfloor>])"

section \<open>Concrete configurations\<close>

text \<open>
  A configuration with the usual parameter values, and the cars the simulation builds
  from it.  \<open>reversed_car\<close> is the car built when the program is started with
  \<open>--speed-multiplier -1\<close>, \<open>stalled_car\<close> the one built with \<open>--speed-multiplier 0\<close>.
\<close>

definition cfg0 :: config where
  "cfg0 = \<lparr>cfg_controller =
             \<lparr>cfg_desired_speed = [''aggressive'' \<mapsto> 25, ''balanced'' \<mapsto> 20, ''cautious'' \<mapsto> 15],
              cfg_a_max = 3, cfg_b_max = 5, cfg_reaction_time = 1, cfg_min_gap = 2,
              cfg_wheelbase = 5 / 2, cfg_lookahead_distance = 10\<rparr>,
           cfg_simulation =
             \<lparr>cfg_dt = 1 / 10, cfg_laps = 3, cfg_time_limit = 300, cfg_collision_radius = 2,
              cfg_near_miss_ttc_threshold = 2, cfg_elimination = None\<rparr>\<rparr>"

definition balanced_car :: car where
  "balanced_car = projr (new_car cfg0 1 0 0 0 0 ''balanced'' 2)"

definition reversed_car :: car where
  "reversed_car = projr (new_car cfg0 (- 1) 0 0 0 0 ''balanced'' 2)"

definition stalled_car :: car where
  "stalled_car = projr (new_car cfg0 0 0 0 0 0 ''balanced'' 2)"

text \<open>
  Sampled centre lines, given sample by sample.  \<open>hairpin\<close> has twelve samples: it
  runs along the x-axis from \<open>(0, 0)\<close> to \<open>(5, 0)\<close>, turns, and comes back a quarter
  of a metre beside itself to \<open>(1/2, 1/4)\<close>.  \<open>rectangle\<close> has ten samples one metre
  apart on the sides of a rectangle of 3 m by 2 m, from \<open>(0, 0)\<close> around to \<open>(0, 1)\<close>.
  \<open>two_samples\<close> is a track of two samples.
\<close>

definition hairpin :: track where
  "hairpin = projr (Track_init 60 40 12 5
     [0, 1, 2, 3, 4, 5, 5, 4, 3, 2, 1, 1 / 2]
     [0, 0, 0, 0, 0, 0, 1 / 4, 1 / 4, 1 / 4, 1 / 4, 1 / 4, 1 / 4])"

definition rectangle :: track where
  "rectangle = projr (Track_init 60 40 12 5
     [0, 1, 2, 3, 3, 3, 2, 1, 0, 0] [0, 0, 0, 0, 1, 2, 2, 2, 2, 1])"

definition two_samples :: track where
  "two_samples = projr (Track_init 60 40 12 5 [0, 1] [0, 0])"

text \<open>
  Two cars of the configuration above that have come to overlap: \<open>moving_car\<close> has been
  driven for one tick at full acceleration, \<open>standing_car\<close> still stands at the
  origin.  \<open>detector0\<close> is a fresh collision detector with the configured radius.
\<close>

definition standing_car :: car where
  "standing_car = projr (new_car cfg0 1 1 0 0 0 ''balanced'' 2)"

definition moving_car :: car where
  "moving_car = update_car_dynamics balanced_car 3 0 (1 / 10)"

definition detector0 :: CollisionDetector where
  "detector0 = CollisionDetector_init (cfg_collision_radius (cfg_simulation cfg0))"

text \<open>
  The configuration with elimination switched off, and a simulation of one car on
  the hairpin track whose first uniform random sample is 0.99.
\<close>

definition cfg_no_elimination :: config where
  "cfg_no_elimination =
     cfg0\<lparr>cfg_simulation := (cfg_simulation cfg0)
            \<lparr>cfg_elimination := Some \<lparr>cfg_enabled = Some False, cfg_elimination_chance = None\<rparr>\<rparr>\<rparr>"

definition one_car_sim :: RacingSimulation where
  "one_car_sim = RacingSimulation_init cfg_no_elimination hairpin [balanced_car] (\<lambda>k. 99 / 100)"

text \<open>
  Two cars at the start of a run on the hairpin track, both in lane 2 and heading
  along the first leg: \<open>lead_car\<close>, first in the roster, stands 1.5 m ahead of
  \<open>rear_car\<close>.  \<open>two_car_sim\<close> is the simulation of the two with elimination switched
  off.
\<close>

definition lead_car :: car where
  "lead_car = projr (new_car cfg0 1 0 (3 / 2) 0 0 ''balanced'' 2)"

definition rear_car :: car where
  "rear_car = projr (new_car cfg0 1 1 0 0 0 ''balanced'' 2)"

definition two_car_sim :: RacingSimulation where
  "two_car_sim =
     RacingSimulation_init cfg_no_elimination hairpin [lead_car, rear_car] (\<lambda>k. 0)"

text \<open>The two cars after their first tick of 0.1 s, as the loop of \<open>run\<close> leaves them.\<close>

definition lead_car_moved :: car where
  "lead_car_moved =
     lead_car\<lparr>velocity := 3 / 10, car_x := 153 / 100, acceleration := 3, s_position := 2,
       last_lap_start_time := 1 / 10,
       trajectory := [\<lparr>tp_x = 153 / 100, tp_y = 0, tp_yaw = 0, tp_velocity = 3 / 10,
                        tp_acceleration = 3, tp_s_position = 2, tp_lap = 0\<rparr>]\<rparr>"

definition rear_car_braked :: car where
  "rear_car_braked =
     rear_car\<lparr>acceleration := - (16591 / 7803), last_lap_start_time := 1 / 10,
       trajectory := [\<lparr>tp_x = 0, tp_y = 0, tp_yaw = 0, tp_velocity = 0,
                        tp_acceleration = - (16591 / 7803), tp_s_position = 0, tp_lap = 0\<rparr>]\<rparr>"

section \<open>Facts about the array primitives\<close>

lemma first_min_unique: "first_min ds k \<Longrightarrow> first_min ds k' \<Longrightarrow> k = k'"
  unfolding first_min_def
  by (metis linorder_neqE_nat not_less)

lemma argmin_scan_first_min:
  assumes "first_min pre bi" "b = pre ! bi" "i = length pre"
  shows "first_min (pre @ ds) (argmin_scan ds i bi b)"
  using assms
proof (induction ds arbitrary: pre i bi b)
  case Nil
  then show ?case by simp
next
  case (Cons d ds)
  show ?case
  proof (cases "d < b")
    case True
    have "first_min (pre @ [d]) (length pre)"
      using Cons.prems True unfolding first_min_def
      by (auto simp: nth_append less_Suc_eq)
    from Cons.IH [OF this, of d "Suc i"] Cons.prems True show ?thesis
      by (simp add: nth_append)
  next
    case False
    have "first_min (pre @ [d]) bi"
      using Cons.prems False unfolding first_min_def
      by (auto simp: nth_append less_Suc_eq)
    from Cons.IH [OF this, of b "Suc i"] Cons.prems False show ?thesis
      by (simp add: nth_append first_min_def)
  qed
qed

lemma np_argmin_first_min:
  assumes "ds \<noteq> []"
  shows "\<exists>k. np_argmin ds = Inr k \<and> first_min ds k"
proof -
  from assms obtain d r where ds: "ds = d # r" by (cases ds) auto
  have "first_min [d] 0" by (simp add: first_min_def)
  from argmin_scan_first_min [OF this, of d 1 r] show ?thesis
    by (simp add: np_argmin_def ds)
qed

lemma first_min_slice:
  assumes "first_min ds c" "a \<le> c" "c < b"
  shows "first_min (slice ds a b) (c - a)"
  using assms unfolding first_min_def slice_def
  by (auto simp: min_def)

lemma sample_distances_slice:
  "sample_distances (slice cx a b) (slice cy a b) px py = slice (sample_distances cx cy px py) a b"
  by (simp add: sample_distances_def slice_def take_map drop_map take_zip drop_zip)

lemma length_sample_distances:
  "length (sample_distances cx cy px py) = min (length cx) (length cy)"
  by (simp add: sample_distances_def)

lemma length_np_diff [simp]: "length (np_diff xs) = length xs - 1"
  by (simp add: np_diff_def)

lemma length_cumsum_from [simp]: "length (cumsum_from acc ds) = length ds"
  by (induction ds arbitrary: acc) simp_all

lemma length_compute_arc_lengths:
  "length cx = length cy \<Longrightarrow> 0 < length cx \<Longrightarrow> length (compute_arc_lengths cx cy) = length cx"
  by (simp add: compute_arc_lengths_def np_cumsum_def segment_lengths_def)

lemma Track_init_fields:
  assumes "Track_init rx ry w nl cx cy = Inr T"
  shows "centerline_x T = cx" "centerline_y T = cy" "length cx = length cy" "0 < length cx"
    "arc_lengths T = compute_arc_lengths cx cy" "total_length T = compute_total_length cx cy"
    "length (arc_lengths T) = length cx"
    "num_lanes T = nl" "generate_lanes w (w / real nl) nl cx cy = Inr (lanes T)"
proof -
  from assms have l: "length cx = length cy" "0 < length cx"
    by (auto simp: Track_init_def split: if_splits)
  from assms obtain ls where ls: "generate_lanes w (w / real nl) nl cx cy = Inr ls"
    and T: "T = \<lparr>radius_x = rx, radius_y = ry, width = w, num_points = length cx,
                 num_lanes = nl, lane_width = w / real nl,
                 centerline_x = cx, centerline_y = cy,
                 total_length = compute_total_length cx cy,
                 arc_lengths = compute_arc_lengths cx cy,
                 lanes = ls\<rparr>"
    by (auto simp: Track_init_def split: if_splits sum.splits)
  from T show "centerline_x T = cx" "centerline_y T = cy"
    "arc_lengths T = compute_arc_lengths cx cy" "total_length T = compute_total_length cx cy"
    "num_lanes T = nl"
    by simp_all
  then show "length (arc_lengths T) = length cx"
    using l by (simp add: length_compute_arc_lengths)
  from l show "length cx = length cy" "0 < length cx" .
  from ls T show "generate_lanes w (w / real nl) nl cx cy = Inr (lanes T)"
    by simp
qed

lemma project_indices_first_min:
  assumes len: "length (centerline_x T) = n" "length (centerline_y T) = n"
    "length (arc_lengths T) = n" and n: "10 \<le> n"
  shows "\<exists>i0. first_min (sample_distances (centerline_x T) (centerline_y T) px py) i0
            \<and> project_indices T px py = Inr (i0, i0)"
proof -
  let ?D = "sample_distances (centerline_x T) (centerline_y T) px py"
  have lD: "length ?D = n" using len by (simp add: length_sample_distances)
  with n have "?D \<noteq> []" by (metis length_0_conv not_numeral_le_zero)
  from np_argmin_first_min [OF this] obtain c where
    c: "np_argmin ?D = Inr c" "first_min ?D c" by blast
  then have cn: "c < n" using lD by (simp add: first_min_def)
  define r where "r = min 50 (n div 10)"
  define a where "a = nat (max 0 (int c - int r))"
  define b where "b = min n (c + r)"
  have r: "1 \<le> r" using n by (simp add: r_def)
  have ac: "a \<le> c" by (simp add: a_def)
  have cb: "c < b" using r cn by (simp add: b_def)
  have fm: "first_min (slice ?D a b) (c - a)"
    by (rule first_min_slice [OF c(2) ac cb])
  then have "slice ?D a b \<noteq> []" by (auto simp: first_min_def)
  from np_argmin_first_min [OF this] obtain k where
    k: "np_argmin (slice ?D a b) = Inr k" "first_min (slice ?D a b) k" by blast
  have "k = c - a" by (rule first_min_unique [OF k(2) fm])
  then have "a + k = c" using ac by simp
  then have "project_indices T px py = Inr (c, c)"
    using c(1) k(1) cn len
    by (simp add: project_indices_def Let_def sample_distances_slice
        r_def [symmetric] a_def [symmetric] b_def [symmetric])
  with c(2) show ?thesis by blast
qed

lemma project_car_position_first_min:
  assumes "length (centerline_x T) = n" "length (centerline_y T) = n"
    "length (arc_lengths T) = n" and "10 \<le> n"
  shows "\<exists>i0. first_min (sample_distances (centerline_x T) (centerline_y T) px py) i0
            \<and> project_indices T px py = Inr (i0, i0)
            \<and> project_car_position T px py = Inr (arc_lengths T ! i0)"
proof -
  from project_indices_first_min [OF assms, of px py] obtain i0 where
    i0: "first_min (sample_distances (centerline_x T) (centerline_y T) px py) i0"
      "project_indices T px py = Inr (i0, i0)"
    by blast
  from i0(1) assms have "i0 < length (arc_lengths T)"
    by (simp add: first_min_def length_sample_distances)
  with i0 show ?thesis
    by (auto simp: project_car_position_def)
qed

subsection \<open>The example tracks, evaluated\<close>

lemma sqrt_sixteenth: "sqrt (1 / 16) = 1 / 4"
  by (rule real_sqrt_unique) (simp_all add: power2_eq_square)

lemma sqrt_quarter: "sqrt (1 / 4) = 1 / 2"
  by (rule real_sqrt_unique) (simp_all add: power2_eq_square)

lemma hairpin_segments:
  "segment_lengths [0, 1, 2, 3, 4, 5, 5, 4, 3, 2, 1, 1 / 2]
     [0, 0, 0, 0, 0, 0, 1 / 4, 1 / 4, 1 / 4, 1 / 4, 1 / 4, 1 / 4]
   = [1, 1, 1, 1, 1, 1 / 4, 1, 1, 1, 1, 1 / 2]"
  by (simp add: segment_lengths_def np_diff_def sqrt_sixteenth sqrt_quarter)

lemma hairpin_built:
  "Track_init 60 40 12 5 [0, 1, 2, 3, 4, 5, 5, 4, 3, 2, 1, 1 / 2]
     [0, 0, 0, 0, 0, 0, 1 / 4, 1 / 4, 1 / 4, 1 / 4, 1 / 4, 1 / 4] = Inr hairpin"
  by (simp add: hairpin_def Track_init_def generate_lanes_def Let_def hairpin_segments
      np_diff_def)

lemma hairpin_fields:
  "centerline_x hairpin = [0, 1, 2, 3, 4, 5, 5, 4, 3, 2, 1, 1 / 2]"
  "centerline_y hairpin = [0, 0, 0, 0, 0, 0, 1 / 4, 1 / 4, 1 / 4, 1 / 4, 1 / 4, 1 / 4]"
  "arc_lengths hairpin = [0, 1, 2, 3, 4, 5, 21 / 4, 25 / 4, 29 / 4, 33 / 4, 37 / 4, 39 / 4]"
  "total_length hairpin = 39 / 4"
  using Track_init_fields [OF hairpin_built]
  by (simp_all add: compute_arc_lengths_def compute_total_length_def hairpin_segments
      np_cumsum_def)

lemma two_samples_built: "Track_init 60 40 12 5 [0, 1] [0, 0] = Inr two_samples"
  by (simp add: two_samples_def Track_init_def generate_lanes_def Let_def segment_lengths_def
      np_diff_def)


subsection \<open>The arc-length table\<close>











lemma hairpin_lane2:
  "num_lanes hairpin = 5" "length (lanes hairpin) = 5"
  "lane_xs (lanes hairpin ! 2) = [0, 1, 2, 3, 4, 5, 5, 4, 3, 2, 1, 1 / 2]"
  "lane_ys (lanes hairpin ! 2) = [0, 0, 0, 0, 0, 0, 1 / 4, 1 / 4, 1 / 4, 1 / 4, 1 / 4, 1 / 4]"
proof -
  note f = Track_init_fields [OF hairpin_built]
  have g: "generate_lanes 12 (12 / 5) 5 [0, 1, 2, 3, 4, 5, 5, 4, 3, 2, 1, 1 / 2]
     [0, 0, 0, 0, 0, 0, 1 / 4, 1 / 4, 1 / 4, 1 / 4, 1 / 4, 1 / 4] = Inr (lanes hairpin)"
    using f(9) by simp
  have n: "num_lanes hairpin = 5"
    using f(8) by simp
  have L: "lanes hairpin = projr (generate_lanes 12 (12 / 5) 5
     [0, 1, 2, 3, 4, 5, 5, 4, 3, 2, 1, 1 / 2]
     [0, 0, 0, 0, 0, 0, 1 / 4, 1 / 4, 1 / 4, 1 / 4, 1 / 4, 1 / 4])"
    by (simp add: g)
  show "num_lanes hairpin = 5" by (rule n)
  show "length (lanes hairpin) = 5"
    unfolding L by (simp add: generate_lanes_def Let_def hairpin_segments np_diff_def)
  show "lane_xs (lanes hairpin ! 2) = [0, 1, 2, 3, 4, 5, 5, 4, 3, 2, 1, 1 / 2]"
    unfolding L by (simp add: generate_lanes_def Let_def hairpin_segments np_diff_def)
  show "lane_ys (lanes hairpin ! 2)
      = [0, 0, 0, 0, 0, 0, 1 / 4, 1 / 4, 1 / 4, 1 / 4, 1 / 4, 1 / 4]"
    unfolding L by (simp add: generate_lanes_def Let_def hairpin_segments np_diff_def)
qed

lemma hairpin_target: "get_target_point hairpin 0 10 (Some 2) = Inr (1 / 4, 0)"
proof -
  have s: "segment_hi [0, 1, 2, 3, 4, 5, 21 / 4, 25 / 4, 29 / 4, 33 / 4, 37 / 4, 39 / 4]
            (1 / 4) = 1"
    by (simp add: segment_hi_def searchsorted_def)
  have p: "lane_point hairpin 2 (1 / 4) = Inr (1 / 4, 0)"
    by (simp add: lane_point_def interp1d_def s hairpin_fields hairpin_lane2 Let_def)
  show ?thesis
    by (simp add: get_target_point_def hairpin_fields hairpin_lane2 py_mod_def p)
qed


section \<open>Projection and round trip on a sampled centre line\<close>

text \<open>
  With fewer than ten samples \<open>search_range\<close> is zero, the refinement window
  \<open>[closest_idx, closest_idx)\<close> is empty, and \<open>np.argmin\<close> raises on it.
\<close>

lemma project_car_position_short:
  assumes len: "length (centerline_x T) = n" "length (centerline_y T) = n"
    "length (arc_lengths T) = n" and n: "n < 10"
  shows "project_car_position T px py = Inl ValueError"
proof (cases "n = 0")
  case True
  then have "sample_distances (centerline_x T) (centerline_y T) px py = []"
    using len by (simp add: sample_distances_def)
  then show ?thesis
    by (simp add: project_car_position_def project_indices_def np_argmin_def)
next
  case False
  let ?D = "sample_distances (centerline_x T) (centerline_y T) px py"
  have lD: "length ?D = n" using len by (simp add: length_sample_distances)
  with False have "?D \<noteq> []" by auto
  from np_argmin_first_min [OF this] obtain c where
    c: "np_argmin ?D = Inr c" "first_min ?D c" by blast
  then have cn: "c < n" using lD by (simp add: first_min_def)
  have r: "min 50 (n div 10) = 0" using n by simp
  show ?thesis
    using c(1) cn len
    by (simp add: project_car_position_def project_indices_def Let_def r slice_def
        sample_distances_def np_argmin_def)
qed









subsection \<open>The rectangle and the two-sample track, evaluated\<close>

lemma rectangle_segments:
  "segment_lengths [0, 1, 2, 3, 3, 3, 2, 1, 0, 0] [0, 0, 0, 0, 1, 2, 2, 2, 2, 1]
   = [1, 1, 1, 1, 1, 1, 1, 1, 1]"
  by (simp add: segment_lengths_def np_diff_def)

lemma rectangle_built:
  "Track_init 60 40 12 5 [0, 1, 2, 3, 3, 3, 2, 1, 0, 0] [0, 0, 0, 0, 1, 2, 2, 2, 2, 1]
     = Inr rectangle"
  by (simp add: rectangle_def Track_init_def generate_lanes_def Let_def rectangle_segments
      np_diff_def)

lemma rectangle_fields:
  "centerline_x rectangle = [0, 1, 2, 3, 3, 3, 2, 1, 0, 0]"
  "centerline_y rectangle = [0, 0, 0, 0, 1, 2, 2, 2, 2, 1]"
  "arc_lengths rectangle = [0, 1, 2, 3, 4, 5, 6, 7, 8, 9]"
  "total_length rectangle = 9"
  using Track_init_fields [OF rectangle_built]
  by (simp_all add: compute_arc_lengths_def compute_total_length_def rectangle_segments
      np_cumsum_def)



lemma rectangle_projection:
  "project_indices rectangle (5 / 4) 0 = Inr (1, 1)"
  "project_car_position rectangle (5 / 4) 0 = Inr 1"
  by (simp_all add: project_car_position_def project_indices_def rectangle_fields
      sample_distances_def np_argmin_def slice_def Let_def power2_eq_square
      del: real_sqrt_four real_sqrt_abs real_sqrt_abs2)


section \<open>Velocity bounds of the integrator\<close>

text \<open>
  A finite sequence of commands \<open>(acceleration, steering angle, dt)\<close> applied tick by
  tick.
\<close>

lemma get_max_speed_update [simp]:
  "get_max_speed (update_car_dynamics c a st dt) = get_max_speed c"
  by (simp add: update_car_dynamics_def Let_def get_max_speed_def)

lemma velocity_update:
  "velocity (update_car_dynamics c a st dt) = np_clip (velocity c + a * dt) 0 (get_max_speed c)"
  by (simp add: update_car_dynamics_def Let_def)

lemma get_max_speed_drive [simp]: "get_max_speed (drive c cmds) = get_max_speed c"
  by (induction c cmds rule: drive.induct) simp_all

lemma drive_snoc:
  "drive c (cmds @ [(a, st, dt)]) = update_car_dynamics (drive c cmds) a st dt"
  by (induction c cmds rule: drive.induct) simp_all

text \<open>
  Claim C1, as amended.  For every car whose maximum speed \<open>desired_speed *
  speed_multiplier\<close> is not negative, every commanded acceleration, steering angle and
  time step: after \<open>update_car_dynamics\<close> the velocity lies between 0 and
  \<open>get_max_speed\<close>; hence it does so after every tick of any non-empty finite sequence
  of commands.
\<close>

theorem C1_velocity_bounds:
  assumes "0 \<le> get_max_speed c"
  shows "0 \<le> velocity (update_car_dynamics c a st dt)
       \<and> velocity (update_car_dynamics c a st dt) \<le> get_max_speed c
       \<and> (\<forall>cmds. cmds \<noteq> [] \<longrightarrow>
             0 \<le> velocity (drive c cmds) \<and> velocity (drive c cmds) \<le> get_max_speed c)"
proof -
  have step: "0 \<le> velocity (update_car_dynamics d a' st' dt')
            \<and> velocity (update_car_dynamics d a' st' dt') \<le> get_max_speed c"
    if "get_max_speed d = get_max_speed c" for d a' st' dt'
    using assms that by (simp add: velocity_update np_clip_def)
  have seq: "0 \<le> velocity (drive c cmds) \<and> velocity (drive c cmds) \<le> get_max_speed c"
    if "cmds \<noteq> []" for cmds
  proof -
    from that obtain ys y where "cmds = ys @ [y]"
      by (metis rev_exhaust)
    moreover obtain a' st' dt' where "y = (a', st', dt')"
      by (cases y) auto
    ultimately show ?thesis
      using step [of "drive c ys" a' st' dt'] by (simp add: drive_snoc)
  qed
  from step [of c a st dt] seq show ?thesis by simp
qed

theorem C1_velocity_bounds_witness:
  "0 \<le> get_max_speed balanced_car
   \<and> velocity (update_car_dynamics balanced_car 3 0 (1 / 10)) = 3 / 10
   \<and> velocity (drive balanced_car [(3, 0, 1 / 10), (300, 0, 1 / 10), (- 500, 0, 1)]) = 0
   \<and> velocity (drive balanced_car [(3, 0, 1 / 10), (300, 0, 1 / 10)]) = 20"
proof -
  have m: "0 \<le> get_max_speed balanced_car"
    by (simp add: balanced_car_def new_car_def Car_init_def CombinedController_init_def
        cfg0_def get_max_speed_def)
  note C1_velocity_bounds [OF m, of 3 0 "1 / 10"]
  then show ?thesis
    using m
    by (simp add: balanced_car_def new_car_def Car_init_def CombinedController_init_def
        cfg0_def get_max_speed_def update_car_dynamics_def np_clip_def Let_def)
qed

text \<open>
  The claim as stated, for every car, fails for a car whose maximum speed is negative:
  \<open>np.clip(v, 0.0, max_speed)\<close> then returns \<open>max_speed\<close>, a negative velocity.
\<close>

theorem C1_negative_max_speed_counterexample:
  "(0::real) < 1 / 10
   \<and> get_max_speed reversed_car = - 20
   \<and> velocity (update_car_dynamics reversed_car 3 0 (1 / 10)) = - 20
   \<and> \<not> (0 \<le> velocity (update_car_dynamics reversed_car 3 0 (1 / 10)))"
  by (simp add: reversed_car_def new_car_def Car_init_def CombinedController_init_def
      cfg0_def get_max_speed_def update_car_dynamics_def np_clip_def Let_def)

section \<open>Facts about the collision pass\<close>

lemma static_fields:
  assumes "static c = static d"
  shows "car_id c = car_id d" "car_x c = car_x d" "car_y c = car_y d" "yaw c = yaw d"
    "velocity c = velocity d" "eliminated c = eliminated d" "lap_count c = lap_count d"
    "elimination_time c = elimination_time d"
  using assms by (simp_all add: static_def)

lemma static_cong:
  assumes "static c = static c'" "static d = static d'"
  shows "car_distance c d = car_distance c' d'" "relative_speed c d = relative_speed c' d'"
    "make_event t c d = make_event t c' d'" "colliding r c d = colliding r c' d'"
  using static_fields [OF assms(1)] static_fields [OF assms(2)]
  by (simp_all add: car_distance_def relative_speed_def make_event_def colliding_def)

lemma static_record_hit [simp]: "static (record_hit s c) = static c"
  by (simp add: static_def record_hit_def)

lemma static_flag [simp]: "static (c\<lparr>collision_flag := b\<rparr>) = static c"
  by (simp add: static_def)

lemma map_static_update:
  "i < length cs \<Longrightarrow> static c = static (cs ! i) \<Longrightarrow> map static (cs[i := c]) = map static cs"
  by (simp add: map_update list_update_same_conv)

lemma map_static_nth:
  "map static cs = map static cs0 \<Longrightarrow> k < length cs0 \<Longrightarrow> static (cs ! k) = static (cs0 ! k)"
  by (metis length_map nth_map)

lemma pair_key_eq_iff:
  "pair_key a b = pair_key c d \<longleftrightarrow> (a = c \<and> b = d) \<or> (a = d \<and> b = c)"
  by (auto simp: pair_key_def min_def max_def)

lemma ev_pair_make_event [simp]:
  "ev_pair (make_event t c d) = pair_key (car_id c) (car_id d)"
  by (simp add: ev_pair_def make_event_def)

lemma collide_pair_unfold:
  "collide_pair r t i j st =
     (if \<not> eliminated (cs_cars st ! j)
         \<and> pair_key (car_id (cs_cars st ! i)) (car_id (cs_cars st ! j)) \<notin> set (cs_collision_pairs st)
         \<and> car_distance (cs_cars st ! i) (cs_cars st ! j) < r
      then \<lparr>cs_cars = bump (relative_speed (cs_cars st ! i) (cs_cars st ! j)) i j (cs_cars st),
            cs_new_collisions = cs_new_collisions st @ [make_event t (cs_cars st ! i) (cs_cars st ! j)],
            cs_collision_pairs = cs_collision_pairs st
               @ [pair_key (car_id (cs_cars st ! i)) (car_id (cs_cars st ! j))]\<rparr>
      else st)"
  by (simp add: collide_pair_def bump_def Let_def)

lemma length_bump [simp]: "length (bump s i j cs) = length cs"
  by (simp add: bump_def Let_def)

lemma map_static_upd:
  assumes "static c = static (cs ! i)"
  shows "map static (cs[i := c]) = map static cs"
proof (cases "i < length cs")
  case True
  with assms show ?thesis
    by (simp add: map_update list_update_same_conv)
next
  case False
  then have "cs[i := c] = cs" by (simp add: list_update_beyond not_less)
  then show ?thesis by (rule arg_cong)
qed

lemma map_static_bump: "map static (bump s i j cs) = map static cs"
proof -
  define c1 where "c1 = cs[i := record_hit s (cs ! i)]"
  define c2 where "c2 = c1[j := record_hit s (c1 ! j)]"
  define c3 where "c3 = c2[i := (c2 ! i)\<lparr>collision_flag := True\<rparr>]"
  define c4 where "c4 = c3[j := (c3 ! j)\<lparr>collision_flag := True\<rparr>]"
  have "map static c1 = map static cs"
    unfolding c1_def by (rule map_static_upd) simp
  moreover have "map static c2 = map static c1"
    unfolding c2_def by (rule map_static_upd) simp
  moreover have "map static c3 = map static c2"
    unfolding c3_def by (rule map_static_upd) simp
  moreover have "map static c4 = map static c3"
    unfolding c4_def by (rule map_static_upd) simp
  moreover have "bump s i j cs = c4"
    by (simp add: bump_def Let_def c1_def c2_def c3_def c4_def)
  ultimately show ?thesis by simp
qed

lemma bump_nth:
  assumes "i < length cs" "j < length cs" "i \<noteq> j" "k < length cs"
  shows "collision_count (bump s i j cs ! k)
           = collision_count (cs ! k) + (if k = i \<or> k = j then 1 else 0)"
    and "total_collision_severity (bump s i j cs ! k)
           = total_collision_severity (cs ! k) + (if k = i \<or> k = j then s else 0)"
  using assms by (auto simp: bump_def Let_def nth_list_update record_hit_def)


lemma involves_make_event [simp]:
  "involves k (make_event t c d) \<longleftrightarrow> car_id c = k \<or> car_id d = k"
  by (simp add: involves_def make_event_def)

lemma ev_severity_make_event [simp]:
  "ev_severity (make_event t c d) = relative_speed c d"
  by (simp add: make_event_def)

lemma distinct_ids_eq:
  assumes "distinct (map car_id cs)" "a < length cs" "b < length cs"
  shows "car_id (cs ! a) = car_id (cs ! b) \<longleftrightarrow> a = b"
  using assms by (auto simp: distinct_conv_nth)

lemma collide_pair_step:
  assumes inv: "pass_inv cs0 st" and d: "distinct (map car_id cs0)"
    and ij: "i < j" "j < length cs0" and ne: "\<not> eliminated (cs0 ! i)"
    and fresh: "\<forall>e\<in>set (cs_new_collisions st).
                  ev_pair e \<noteq> pair_key (car_id (cs0 ! i)) (car_id (cs0 ! j))"
  shows "pass_inv cs0 (collide_pair r t i j st)
       \<and> cs_new_collisions (collide_pair r t i j st)
           = cs_new_collisions st
             @ (if colliding r (cs0 ! i) (cs0 ! j) then [make_event t (cs0 ! i) (cs0 ! j)] else [])"
proof -
  let ?cs = "cs_cars st"
  from inv have ms: "map static ?cs = map static cs0"
    and pairs: "cs_collision_pairs st = map ev_pair (cs_new_collisions st)"
    and tl: "tally cs0 ?cs (cs_new_collisions st)"
    by (simp_all add: pass_inv_def)
  from ms have len: "length ?cs = length cs0"
    by (metis length_map)
  from ij have i: "i < length cs0" by simp
  note si = map_static_nth [OF ms i] and sj = map_static_nth [OF ms ij(2)]
  note fi = static_fields [OF si] and fj = static_fields [OF sj]
  note cg = static_cong [OF si sj]
  have notin: "pair_key (car_id (?cs ! i)) (car_id (?cs ! j)) \<notin> set (cs_collision_pairs st)"
    using fresh by (auto simp: pairs fi fj)
  show ?thesis
  proof (cases "colliding r (cs0 ! i) (cs0 ! j)")
    case False
    then have "collide_pair r t i j st = st"
      using ne by (auto simp: collide_pair_unfold colliding_def fi fj cg)
    with inv False show ?thesis by simp
  next
    case True
    let ?s = "relative_speed (cs0 ! i) (cs0 ! j)"
    let ?e = "make_event t (cs0 ! i) (cs0 ! j)"
    from True notin have eq: "collide_pair r t i j st =
        \<lparr>cs_cars = bump ?s i j ?cs,
         cs_new_collisions = cs_new_collisions st @ [?e],
         cs_collision_pairs = cs_collision_pairs st @ [pair_key (car_id (cs0 ! i)) (car_id (cs0 ! j))]\<rparr>"
      by (simp add: collide_pair_unfold colliding_def fi fj cg)
    have "tally cs0 (bump ?s i j ?cs) (cs_new_collisions st @ [?e])"
      unfolding tally_def
    proof (intro allI impI)
      fix k assume k: "k < length cs0"
      have inv_k: "involves (car_id (cs0 ! k)) ?e \<longleftrightarrow> k = i \<or> k = j"
        using distinct_ids_eq [OF d i k] distinct_ids_eq [OF d ij(2) k] by auto
      from tl k have
        "collision_count (?cs ! k) = collision_count (cs0 ! k)
           + length (filter (involves (car_id (cs0 ! k))) (cs_new_collisions st))"
        "total_collision_severity (?cs ! k) = total_collision_severity (cs0 ! k)
           + sum_list (map ev_severity (filter (involves (car_id (cs0 ! k))) (cs_new_collisions st)))"
        by (simp_all add: tally_def)
      moreover have "i < length ?cs" "j < length ?cs" "i \<noteq> j" "k < length ?cs"
        using i ij k len by simp_all
      ultimately show "collision_count (bump ?s i j ?cs ! k)
          = collision_count (cs0 ! k)
            + length (filter (involves (car_id (cs0 ! k))) (cs_new_collisions st @ [?e]))
        \<and> total_collision_severity (bump ?s i j ?cs ! k)
          = total_collision_severity (cs0 ! k)
            + sum_list (map ev_severity
                (filter (involves (car_id (cs0 ! k))) (cs_new_collisions st @ [?e])))"
        using inv_k by (simp add: bump_nth)
    qed
    then have "pass_inv cs0 (collide_pair r t i j st)"
      by (simp add: eq pass_inv_def map_static_bump ms pairs)
    with True eq show ?thesis by simp
  qed
qed


lemma check_inner_row:
  assumes "pass_inv cs0 st" and "distinct (map car_id cs0)"
    and "i < length cs0" and "\<not> eliminated (cs0 ! i)"
    and "\<forall>j\<in>set js. i < j \<and> j < length cs0" and "distinct js"
    and "\<forall>e\<in>set (cs_new_collisions st). \<forall>j\<in>set js.
           ev_pair e \<noteq> pair_key (car_id (cs0 ! i)) (car_id (cs0 ! j))"
  shows "pass_inv cs0 (check_inner r t i js st)
       \<and> cs_new_collisions (check_inner r t i js st)
           = cs_new_collisions st @ colliding_row r t cs0 i js"
  using assms
proof (induction js arbitrary: st)
  case Nil
  then show ?case by (simp add: colliding_row_def)
next
  case (Cons j js)
  let ?st = "collide_pair r t i j st"
  from Cons.prems have ij: "i < j" "j < length cs0" by simp_all
  from Cons.prems have fresh_j: "\<forall>e\<in>set (cs_new_collisions st).
      ev_pair e \<noteq> pair_key (car_id (cs0 ! i)) (car_id (cs0 ! j))"
    by simp
  note step = collide_pair_step [OF Cons.prems(1,2) ij Cons.prems(4) fresh_j, of r t]
  have fresh': "\<forall>e\<in>set (cs_new_collisions ?st). \<forall>j'\<in>set js.
      ev_pair e \<noteq> pair_key (car_id (cs0 ! i)) (car_id (cs0 ! j'))"
  proof (intro ballI)
    fix e j' assume e: "e \<in> set (cs_new_collisions ?st)" and j': "j' \<in> set js"
    from j' Cons.prems have jj: "j' \<noteq> j" "j' < length cs0" "i < j'" by auto
    show "ev_pair e \<noteq> pair_key (car_id (cs0 ! i)) (car_id (cs0 ! j'))"
    proof (cases "e \<in> set (cs_new_collisions st)")
      case True
      with Cons.prems(7) j' show ?thesis by simp
    next
      case False
      with e step have "e = make_event t (cs0 ! i) (cs0 ! j)"
        by (auto split: if_splits)
      moreover have "car_id (cs0 ! j) \<noteq> car_id (cs0 ! j')"
        using distinct_ids_eq [OF Cons.prems(2) ij(2) jj(2)] jj(1) by simp
      moreover have "car_id (cs0 ! i) \<noteq> car_id (cs0 ! j)"
        using distinct_ids_eq [OF Cons.prems(2,3) ij(2)] ij(1) by simp
      ultimately show ?thesis
        by (simp add: pair_key_eq_iff)
    qed
  qed
  from Cons.prems have rest: "\<forall>j\<in>set js. i < j \<and> j < length cs0" "distinct js"
    by simp_all
  from Cons.IH [OF conjunct1 [OF step] Cons.prems(2,3,4) rest fresh'] step
  show ?case
    by (simp add: colliding_row_def)
qed


lemma colliding_row_eliminated:
  "eliminated (cs ! i) \<Longrightarrow> colliding_row r t cs i js = []"
  by (simp add: colliding_row_def colliding_def)

lemma colliding_row_provenance:
  assumes "e \<in> set (colliding_row r t cs i js)"
  shows "\<exists>j\<in>set js. e = make_event t (cs ! i) (cs ! j)"
  using assms by (auto simp: colliding_row_def)

lemma check_outer_rows:
  assumes "pass_inv cs0 st" and "distinct (map car_id cs0)" and "n = length cs0" and "k \<le> n"
    and "\<forall>e\<in>set (cs_new_collisions st). \<exists>a b. a < k \<and> a < b \<and> b < n
           \<and> ev_pair e = pair_key (car_id (cs0 ! a)) (car_id (cs0 ! b))"
  shows "pass_inv cs0 (check_outer r t [k..<n] st)
       \<and> cs_new_collisions (check_outer r t [k..<n] st)
           = cs_new_collisions st
             @ concat (map (\<lambda>i. colliding_row r t cs0 i [Suc i..<n]) [k..<n])"
  using assms
proof (induction "n - k" arbitrary: k st)
  case 0
  then show ?case by simp
next
  case (Suc m)
  then have kn: "k < n" by simp
  then have upt: "[k..<n] = k # [Suc k..<n]" by (simp add: upt_conv_Cons)
  from Suc.prems have ms: "map static (cs_cars st) = map static cs0"
    by (simp add: pass_inv_def)
  then have len: "length (cs_cars st) = n"
    using Suc.prems(3) by (metis length_map)
  have k0: "k < length cs0" using kn Suc.prems(3) by simp
  have el: "eliminated (cs_cars st ! k) = eliminated (cs0 ! k)"
    using static_fields(6) [OF map_static_nth [OF ms k0]] .
  define st1 where "st1 = (if eliminated (cs_cars st ! k) then st
                           else check_inner r t k [Suc k..<length (cs_cars st)] st)"
  have st1: "pass_inv cs0 st1
      \<and> cs_new_collisions st1 = cs_new_collisions st @ colliding_row r t cs0 k [Suc k..<n]"
  proof (cases "eliminated (cs0 ! k)")
    case True
    with Suc.prems(1) el show ?thesis
      by (simp add: st1_def colliding_row_eliminated)
  next
    case False
    have js: "\<forall>j\<in>set [Suc k..<n]. k < j \<and> j < length cs0" "distinct [Suc k..<n]"
      using Suc.prems(3) by simp_all
    have fresh: "\<forall>e\<in>set (cs_new_collisions st). \<forall>j\<in>set [Suc k..<n].
        ev_pair e \<noteq> pair_key (car_id (cs0 ! k)) (car_id (cs0 ! j))"
    proof (intro ballI)
      fix e j assume e: "e \<in> set (cs_new_collisions st)" and j: "j \<in> set [Suc k..<n]"
      from Suc.prems(5) e obtain a b where ab: "a < k" "a < b" "b < n"
        "ev_pair e = pair_key (car_id (cs0 ! a)) (car_id (cs0 ! b))"
        by blast
      from j have jn: "k < j" "j < length cs0" using Suc.prems(3) by simp_all
      have a0: "a < length cs0" using ab kn Suc.prems(3) by simp
      have "car_id (cs0 ! a) \<noteq> car_id (cs0 ! k)"
        using distinct_ids_eq [OF Suc.prems(2) a0 k0] ab(1) by simp
      moreover have "car_id (cs0 ! a) \<noteq> car_id (cs0 ! j)"
        using distinct_ids_eq [OF Suc.prems(2) a0 jn(2)] ab(1) jn(1) by simp
      ultimately show "ev_pair e \<noteq> pair_key (car_id (cs0 ! k)) (car_id (cs0 ! j))"
        by (simp add: ab(4) pair_key_eq_iff)
    qed
    from check_inner_row [OF Suc.prems(1,2) k0 False js fresh, of r t] False el len
    show ?thesis by (simp add: st1_def)
  qed
  have prov: "\<forall>e\<in>set (cs_new_collisions st1). \<exists>a b. a < Suc k \<and> a < b \<and> b < n
      \<and> ev_pair e = pair_key (car_id (cs0 ! a)) (car_id (cs0 ! b))"
  proof
    fix e assume "e \<in> set (cs_new_collisions st1)"
    with st1 consider "e \<in> set (cs_new_collisions st)"
      | "e \<in> set (colliding_row r t cs0 k [Suc k..<n])"
      by auto
    then show "\<exists>a b. a < Suc k \<and> a < b \<and> b < n
        \<and> ev_pair e = pair_key (car_id (cs0 ! a)) (car_id (cs0 ! b))"
    proof cases
      case 1
      with Suc.prems(5) show ?thesis
        by (meson less_Suc_eq)
    next
      case 2
      from colliding_row_provenance [OF this] obtain j where
        "j \<in> set [Suc k..<n]" "e = make_event t (cs0 ! k) (cs0 ! j)"
        by blast
      then have "k < Suc k \<and> k < j \<and> j < n
          \<and> ev_pair e = pair_key (car_id (cs0 ! k)) (car_id (cs0 ! j))"
        by simp
      then show ?thesis by blast
    qed
  qed
  have m: "m = n - Suc k" using Suc.hyps(2) by simp
  have "Suc k \<le> n" using kn by simp
  from Suc.hyps(1) [OF m conjunct1 [OF st1] Suc.prems(2,3) this prov] st1
  show ?case
    by (simp add: upt st1_def [symmetric])
qed

lemma check_collisions_events:
  assumes "distinct (map car_id cars)"
  shows "fst (check_collisions det cars t) = colliding_events (collision_radius det) t cars"
    and "map static (snd (snd (check_collisions det cars t))) = map static cars"
    and "tally cars (snd (snd (check_collisions det cars t)))
           (colliding_events (collision_radius det) t cars)"
proof -
  let ?st0 = "\<lparr>cs_cars = cars, cs_new_collisions = [], cs_collision_pairs = []\<rparr>"
  have inv0: "pass_inv cars ?st0"
    by (simp add: pass_inv_def tally_def)
  from check_outer_rows [OF inv0 assms refl, of 0 "collision_radius det" t]
  have r: "pass_inv cars (check_outer (collision_radius det) t [0..<length cars] ?st0)"
    "cs_new_collisions (check_outer (collision_radius det) t [0..<length cars] ?st0)
       = colliding_events (collision_radius det) t cars"
    by (simp_all add: colliding_events_def)
  then show "fst (check_collisions det cars t)
      = colliding_events (collision_radius det) t cars"
    by (simp add: check_collisions_def Let_def)
  from r show "map static (snd (snd (check_collisions det cars t))) = map static cars"
    by (simp add: check_collisions_def Let_def pass_inv_def)
  from r show "tally cars (snd (snd (check_collisions det cars t)))
           (colliding_events (collision_radius det) t cars)"
    by (simp add: check_collisions_def Let_def pass_inv_def)
qed

lemma dedup_inv_iff:
  "dedup_inv st \<longleftrightarrow>
     cs_collision_pairs st = map ev_pair (cs_new_collisions st)
     \<and> distinct (map ev_pair (cs_new_collisions st))"
  by (auto simp: dedup_inv_def)

lemma collide_pair_dedup:
  assumes "dedup_inv st"
  shows "dedup_inv (collide_pair r t i j st)"
proof -
  from assms have p: "cs_collision_pairs st = map ev_pair (cs_new_collisions st)"
    and d: "distinct (map ev_pair (cs_new_collisions st))"
    by (simp_all add: dedup_inv_iff)
  show ?thesis
    by (simp add: collide_pair_unfold dedup_inv_iff p d)
qed

lemma check_inner_dedup: "dedup_inv st \<Longrightarrow> dedup_inv (check_inner r t i js st)"
  by (induction js arbitrary: st) (simp_all add: collide_pair_dedup)

lemma check_outer_dedup: "dedup_inv st \<Longrightarrow> dedup_inv (check_outer r t is st)"
  by (induction "is" arbitrary: st) (simp_all add: check_inner_dedup)

lemma check_collisions_distinct_pairs:
  "distinct (map ev_pair (fst (check_collisions det cars t)))"
proof -
  have "dedup_inv \<lparr>cs_cars = cars, cs_new_collisions = [], cs_collision_pairs = []\<rparr>"
    by (simp add: dedup_inv_def)
  from check_outer_dedup [OF this, of "collision_radius det" t "[0..<length cars]"]
  show ?thesis
    by (simp add: check_collisions_def Let_def dedup_inv_iff)
qed

lemma colliding_row_static:
  assumes "map static cs = map static cs'" "i < length cs'" "\<forall>j\<in>set js. j < length cs'"
  shows "colliding_row r t cs i js = colliding_row r t cs' i js"
proof -
  have eq: "make_event t (cs ! i) (cs ! j) = make_event t (cs' ! i) (cs' ! j)"
    "colliding r (cs ! i) (cs ! j) = colliding r (cs' ! i) (cs' ! j)" if "j \<in> set js" for j
    using static_cong [OF map_static_nth [OF assms(1,2)] map_static_nth [OF assms(1)], of j]
      assms(3) that by simp_all
  have "filter (\<lambda>j. colliding r (cs ! i) (cs ! j)) js
      = filter (\<lambda>j. colliding r (cs' ! i) (cs' ! j)) js"
    by (rule filter_cong [OF refl]) (rule eq(2))
  moreover have "map (\<lambda>j. make_event t (cs ! i) (cs ! j))
        (filter (\<lambda>j. colliding r (cs' ! i) (cs' ! j)) js)
      = map (\<lambda>j. make_event t (cs' ! i) (cs' ! j))
        (filter (\<lambda>j. colliding r (cs' ! i) (cs' ! j)) js)"
    by (rule map_cong [OF refl]) (simp add: eq(1))
  ultimately show ?thesis
    by (simp only: colliding_row_def)
qed

lemma colliding_events_static:
  assumes "map static cs = map static cs'"
  shows "colliding_events r t cs = colliding_events r t cs'"
proof -
  from assms have len: "length cs = length cs'" by (metis length_map)
  have "colliding_row r t cs i [Suc i..<length cs'] = colliding_row r t cs' i [Suc i..<length cs']"
    if "i \<in> set [0..<length cs']" for i
    using that by (intro colliding_row_static [OF assms]) simp_all
  then have "map (\<lambda>i. colliding_row r t cs i [Suc i..<length cs']) [0..<length cs']
      = map (\<lambda>i. colliding_row r t cs' i [Suc i..<length cs']) [0..<length cs']"
    by (intro map_cong refl)
  then show ?thesis
    by (simp only: colliding_events_def len)
qed

lemma make_event_timestamp:
  "make_event t2 c d = (make_event t c d)\<lparr>ev_timestamp := t2\<rparr>"
  by (simp add: make_event_def)

lemma colliding_events_timestamp:
  "colliding_events r t2 cs = map (\<lambda>e. e\<lparr>ev_timestamp := t2\<rparr>) (colliding_events r t cs)"
  by (simp add: colliding_events_def colliding_row_def map_concat comp_def
      make_event_timestamp [of t2 _ _ t])

lemma map_car_id_static: "map car_id cs = map fst (map static cs)"
  by (induction cs) (simp_all add: static_def)

lemma distinct_ids_static:
  assumes "map static cs = map static cs'"
  shows "distinct (map car_id cs) = distinct (map car_id cs')"
  by (simp only: map_car_id_static assms)


section \<open>The elimination flag during a tick\<close>

lemma collide_pair_static: "map static (cs_cars (collide_pair r t i j st)) = map static (cs_cars st)"
  by (simp add: collide_pair_unfold map_static_bump)

lemma check_inner_static: "map static (cs_cars (check_inner r t i js st)) = map static (cs_cars st)"
  by (induction js arbitrary: st) (simp_all add: collide_pair_static)

lemma check_outer_static: "map static (cs_cars (check_outer r t is st)) = map static (cs_cars st)"
  by (induction "is" arbitrary: st) (simp_all add: check_inner_static)

lemma check_collisions_static:
  "map static (snd (snd (check_collisions det cars t))) = map static cars"
  by (simp add: check_collisions_def Let_def check_outer_static)

lemma map_eliminated_static: "map eliminated cs = map (\<lambda>s. fst (snd (snd (snd (snd (snd s)))))) (map static cs)"
  by (induction cs) (simp_all add: static_def)

lemma check_collisions_eliminated:
  "map eliminated (snd (snd (check_collisions det cars t))) = map eliminated cars"
  by (simp only: map_eliminated_static check_collisions_static)

lemma eliminated_smooth_lane [simp]: "eliminated (smooth_lane c) = eliminated c"
  by (simp add: smooth_lane_def Let_def)

lemma compute_control_eliminated:
  "compute_control T c all_cars = Inr (a, s, c') \<Longrightarrow> eliminated c' = eliminated c"
  by (auto simp: compute_control_def Let_def split: option.splits sum.splits prod.splits)

lemma eliminated_update_car_dynamics [simp]:
  "eliminated (update_car_dynamics c a s dt) = eliminated c"
  by (simp add: update_car_dynamics_def Let_def)

lemma update_state_eliminated:
  "update_state c dt T = Inr c' \<Longrightarrow> eliminated c' = eliminated c"
  by (auto simp: update_state_def Let_def split: sum.splits if_splits)

lemma eliminated_tick_timer [simp]: "eliminated (tick_timer dt c) = eliminated c"
  by (simp add: tick_timer_def)

lemma map_eliminated_upd:
  assumes "eliminated c = eliminated (cs ! i)"
  shows "map eliminated (cs[i := c]) = map eliminated cs"
proof (cases "i < length cs")
  case True
  with assms show ?thesis
    by (simp add: map_update list_update_same_conv)
next
  case False
  then have "cs[i := c] = cs" by (simp add: list_update_beyond not_less)
  then show ?thesis by (rule arg_cong)
qed

lemma update_car_eliminated:
  assumes "update_car T dt cars i = Inr (cmd, cars')"
  shows "map eliminated cars' = map eliminated cars"
proof -
  let ?c1 = "cars[i := tick_timer dt (cars ! i)]"
  have m1: "map eliminated ?c1 = map eliminated cars"
    by (rule map_eliminated_upd) simp
  from assms obtain a s car2 car4 where
    cc: "compute_control T (?c1 ! i) (filter (\<lambda>c. \<not> eliminated c) ?c1) = Inr (a, s, car2)"
    and us: "update_state (update_car_dynamics car2 a s dt) dt T = Inr car4"
    and r: "cars' = ?c1[i := car4]"
    by (auto simp: update_car_def Let_def split: sum.splits prod.splits)
  from compute_control_eliminated [OF cc] update_state_eliminated [OF us]
  have "eliminated car4 = eliminated (?c1 ! i)" by simp
  then have "map eliminated (?c1[i := car4]) = map eliminated ?c1"
    by (rule map_eliminated_upd)
  with m1 r show ?thesis by simp
qed

lemma update_cars_eliminated:
  "update_cars T dt is cars cmds = Inr (cmds', cars') \<Longrightarrow> map eliminated cars' = map eliminated cars"
proof (induction "is" arbitrary: cars cmds)
  case Nil
  then show ?case by simp
next
  case (Cons i "is")
  show ?case
  proof (cases "eliminated (cars ! i)")
    case True
    with Cons show ?thesis by simp
  next
    case False
    with Cons.prems obtain cmd cars1 where
      u: "update_car T dt cars i = Inr (cmd, cars1)"
      and r: "update_cars T dt is cars1 (cmds @ [cmd]) = Inr (cmds', cars')"
      by (auto split: sum.splits prod.splits)
    from Cons.IH [OF r] update_car_eliminated [OF u] show ?thesis by simp
  qed
qed


lemma sim_step_eliminated:
  assumes "\<not> elimination_enabled sim" and "sim_step sim step = Inr (go_on, sim')"
  shows "map eliminated (sim_cars sim') = map eliminated (sim_cars sim)
       \<and> \<not> elimination_enabled sim'"
proof -
  let ?sim1 = "sim\<lparr>timestamp := real step * sim_dt sim\<rparr>"
  show ?thesis
  proof (cases "go_on")
    case False
    with assms have "sim' = ?sim1"
      by (auto simp: sim_step_def Let_def split: if_splits sum.splits prod.splits)
    with assms(1) show ?thesis by simp
  next
    case True
    with assms(2) obtain cmds cars1 where
      u: "update_cars (sim_track sim) (sim_dt sim) [0..<length (sim_cars sim)] (sim_cars sim) []
            = Inr (cmds, cars1)"
      by (auto simp: sim_step_def Let_def split: if_splits sum.splits prod.splits)
    obtain new det cars2 where
      c: "check_collisions (collision_detector sim) cars1 (real step * sim_dt sim) = (new, det, cars2)"
      by (metis prod_cases3)
    from check_collisions_eliminated [of "collision_detector sim" cars1 "real step * sim_dt sim"] c
    have e2: "map eliminated cars2 = map eliminated cars1" by simp
    from assms True u c have
      "sim_cars sim' = map (\<lambda>c. c\<lparr>collision_flag := False\<rparr>) cars2"
      "elimination_enabled sim' = elimination_enabled sim"
      by (auto simp: sim_step_def Let_def split: if_splits)
    with e2 update_cars_eliminated [OF u] assms(1) show ?thesis
      by (simp add: comp_def)
  qed
qed

lemma run_loop_eliminated:
  assumes "\<not> elimination_enabled sim" and "run_loop sim ks = Inr sim'"
  shows "map eliminated (sim_cars sim') = map eliminated (sim_cars sim)"
  using assms
proof (induction ks arbitrary: sim)
  case Nil
  then show ?case by simp
next
  case (Cons k ks)
  from Cons.prems(2) obtain go_on sim1 where
    s: "sim_step sim k = Inr (go_on, sim1)"
    and r: "(if go_on then run_loop sim1 ks else Inr sim1) = Inr sim'"
    by (auto split: sum.splits prod.splits)
  note e = sim_step_eliminated [OF Cons.prems(1) s]
  show ?case
  proof (cases go_on)
    case True
    with r Cons.IH [of sim1] e show ?thesis by simp
  next
    case False
    with r e show ?thesis by simp
  qed
qed

lemma elimination_disabled_init:
  assumes "cfg_elimination (cfg_simulation cfg) = Some ec" and "cfg_enabled ec = Some False"
  shows "\<not> elimination_enabled (RacingSimulation_init cfg T cars g)"
    and "sim_cars (RacingSimulation_init cfg T cars g) = cars"
  using assms by (simp_all add: RacingSimulation_init_def Let_def)


section \<open>One tick of two cars on the hairpin track, evaluated\<close>

lemma sqrt_9_4: "sqrt (9 / 4) = 3 / 2"
  by (rule real_sqrt_unique) (simp_all add: power2_eq_square)

lemma sqrt_25_16: "sqrt (25 / 16) = 5 / 4"
  by (rule real_sqrt_unique) (simp_all add: power2_eq_square)

lemma cfg0_controller:
  "CombinedController_init cfg0 ''balanced''
     = Inr \<lparr>idm = IDMController_init 3 5 2 1 20,
            pure_pursuit = PurePursuitController_init 10 (5 / 2)\<rparr>"
  by (simp add: CombinedController_init_def cfg0_def)

lemma Car_init_cfg0:
  "Car_init i x0 y0 yaw0 ''balanced'' cfg0 2 ctl =
     Inr \<lparr>car_id = i, strategy_type = ''balanced'', car_x = x0, car_y = y0, yaw = yaw0,
      velocity = 0, acceleration = 0, lane = 2, target_lane = 2, lap_count = 0,
      s_position = 0, lane_change_timer = 0, desired_speed = 20, max_accel = 3,
      max_brake = 5, reaction_time = 1, min_gap = 2, wheelbase = 5 / 2,
      lookahead_distance = 10, speed_multiplier = 1, trajectory = [],
      collision_flag = False, collision_count = 0, total_collision_severity = 0,
      eliminated = False, elimination_time = None, elimination_reason = None,
      lap_times = [], last_lap_start_s = 0, last_lap_start_time = 0,
      controller = ctl\<rparr>"
  by (simp add: Car_init_def cfg0_def)

lemma lead_car_eq:
  "lead_car =
     \<lparr>car_id = 0, strategy_type = ''balanced'', car_x = 3 / 2, car_y = 0, yaw = 0,
      velocity = 0, acceleration = 0, lane = 2, target_lane = 2, lap_count = 0,
      s_position = 0, lane_change_timer = 0, desired_speed = 20, max_accel = 3,
      max_brake = 5, reaction_time = 1, min_gap = 2, wheelbase = 5 / 2,
      lookahead_distance = 10, speed_multiplier = 1, trajectory = [],
      collision_flag = False, collision_count = 0, total_collision_severity = 0,
      eliminated = False, elimination_time = None, elimination_reason = None,
      lap_times = [], last_lap_start_s = 0, last_lap_start_time = 0,
      controller = \<lparr>idm = IDMController_init 3 5 2 1 20,
                      pure_pursuit = PurePursuitController_init 10 (5 / 2)\<rparr>\<rparr>"
  by (simp add: lead_car_def new_car_def cfg0_controller Car_init_cfg0)

lemma rear_car_eq:
  "rear_car =
     \<lparr>car_id = 1, strategy_type = ''balanced'', car_x = 0, car_y = 0, yaw = 0,
      velocity = 0, acceleration = 0, lane = 2, target_lane = 2, lap_count = 0,
      s_position = 0, lane_change_timer = 0, desired_speed = 20, max_accel = 3,
      max_brake = 5, reaction_time = 1, min_gap = 2, wheelbase = 5 / 2,
      lookahead_distance = 10, speed_multiplier = 1, trajectory = [],
      collision_flag = False, collision_count = 0, total_collision_severity = 0,
      eliminated = False, elimination_time = None, elimination_reason = None,
      lap_times = [], last_lap_start_s = 0, last_lap_start_time = 0,
      controller = \<lparr>idm = IDMController_init 3 5 2 1 20,
                      pure_pursuit = PurePursuitController_init 10 (5 / 2)\<rparr>\<rparr>"
  by (simp add: rear_car_def new_car_def cfg0_controller Car_init_cfg0)

lemma lead_decide: "decide_lane_change lead_car [lead_car, rear_car] = None"
  by (simp add: decide_lane_change_def lead_car_eq rear_car_eq forward_projection_def)

lemma lead_smooth: "smooth_lane lead_car = lead_car"
  by (simp add: smooth_lane_def lead_car_eq np_clip_def Let_def)


lemma lead_neighbors:
  "sense_neighbors lead_car [lead_car, rear_car] 50 = [(rear_car, 3 / 2, 0)]"
  by (simp add: sense_neighbors_def lead_car_eq rear_car_eq Let_def power2_eq_square sqrt_9_4)

lemma lead_leader: "find_leader lead_car [(rear_car, 3 / 2, 0)] = None"
  by (simp add: find_leader_def forward_projection_def lead_car_eq rear_car_eq)

lemma lead_accel:
  "compute_acceleration (idm (controller lead_car)) lead_car None None 0 = Inr 3"
  by (simp add: compute_acceleration_def lead_car_eq IDMController_init_def np_clip_def Let_def)

lemma lead_steer:
  "compute_steering_angle (pure_pursuit (controller lead_car)) lead_car (1 / 4) 0 = 0"
  by (simp add: compute_steering_angle_def lead_car_eq PurePursuitController_init_def
      np_arctan2_def np_clip_def Let_def power2_eq_square sqrt_25_16)

lemma lead_control:
  "compute_control hairpin lead_car [lead_car, rear_car] = Inr (3, 0, lead_car)"
proof -
  have "s_position lead_car = 0" "lookahead_distance lead_car = 10" "py_round (lane lead_car) = 2"
    by (simp_all add: lead_car_eq py_round_def)
  then show ?thesis
    by (simp add: compute_control_def lead_decide lead_smooth lead_neighbors lead_leader
        lead_accel lead_steer hairpin_target)
qed


lemma lead_dynamics:
  "update_car_dynamics lead_car 3 0 (1 / 10)
     = lead_car\<lparr>velocity := 3 / 10, car_x := 153 / 100, acceleration := 3\<rparr>"
  by (simp add: update_car_dynamics_def lead_car_eq get_max_speed_def np_clip_def py_mod_def
      Let_def)

lemma lead_project: "project_car_position hairpin (153 / 100) 0 = Inr 2"
  by (simp add: project_car_position_def project_indices_def hairpin_fields
      sample_distances_def np_argmin_def slice_def Let_def power2_eq_square
      del: real_sqrt_four real_sqrt_abs real_sqrt_abs2)

lemma lead_update_state:
  "update_state (lead_car\<lparr>velocity := 3 / 10, car_x := 153 / 100, acceleration := 3\<rparr>)
     (1 / 10) hairpin = Inr lead_car_moved"
  by (simp add: update_state_def lead_project hairpin_fields lead_car_moved_def lead_car_eq
      Let_def)

lemma lead_update_car:
  "update_car hairpin (1 / 10) [lead_car, rear_car] 0
     = Inr ((3, 0), [lead_car_moved, rear_car])"
proof -
  have "tick_timer (1 / 10) lead_car = lead_car"
    by (simp add: tick_timer_def lead_car_eq)
  moreover have "\<not> eliminated lead_car" "\<not> eliminated rear_car"
    by (simp_all add: lead_car_eq rear_car_eq)
  ultimately show ?thesis
    by (simp add: update_car_def lead_control lead_dynamics lead_update_state)
qed


lemma sqrt_153: "sqrt (23409 / 10000) = 153 / 100"
  by (rule real_sqrt_unique) (simp_all add: power2_eq_square)

lemma lead_car_moved_eq:
  "lead_car_moved =
     \<lparr>car_id = 0, strategy_type = ''balanced'', car_x = 153 / 100, car_y = 0, yaw = 0,
      velocity = 3 / 10, acceleration = 3, lane = 2, target_lane = 2, lap_count = 0,
      s_position = 2, lane_change_timer = 0, desired_speed = 20, max_accel = 3,
      max_brake = 5, reaction_time = 1, min_gap = 2, wheelbase = 5 / 2,
      lookahead_distance = 10, speed_multiplier = 1,
      trajectory = [\<lparr>tp_x = 153 / 100, tp_y = 0, tp_yaw = 0, tp_velocity = 3 / 10,
                      tp_acceleration = 3, tp_s_position = 2, tp_lap = 0\<rparr>],
      collision_flag = False, collision_count = 0, total_collision_severity = 0,
      eliminated = False, elimination_time = None, elimination_reason = None,
      lap_times = [], last_lap_start_s = 0, last_lap_start_time = 1 / 10,
      controller = \<lparr>idm = IDMController_init 3 5 2 1 20,
                      pure_pursuit = PurePursuitController_init 10 (5 / 2)\<rparr>\<rparr>"
  by (simp add: lead_car_moved_def lead_car_eq)

lemma rear_decide:
  "decide_lane_change rear_car [lead_car_moved, rear_car] = None"
  "decide_lane_change rear_car [lead_car, rear_car] = None"
  by (simp_all add: decide_lane_change_def lead_car_moved_eq lead_car_eq rear_car_eq
      forward_projection_def Let_def)

lemma rear_smooth: "smooth_lane rear_car = rear_car"
  by (simp add: smooth_lane_def rear_car_eq np_clip_def Let_def)

lemma rear_neighbors:
  "sense_neighbors rear_car [lead_car_moved, rear_car] 50 = [(lead_car_moved, 153 / 100, 3 / 10)]"
  "sense_neighbors rear_car [lead_car, rear_car] 50 = [(lead_car, 3 / 2, 0)]"
  by (simp_all add: sense_neighbors_def lead_car_moved_eq lead_car_eq rear_car_eq Let_def
      power2_eq_square sqrt_9_4 sqrt_153)

lemma rear_leader:
  "find_leader rear_car [(lead_car_moved, 153 / 100, 3 / 10)]
     = Some (lead_car_moved, 153 / 100, 3 / 10)"
  "find_leader rear_car [(lead_car, 3 / 2, 0)] = Some (lead_car, 3 / 2, 0)"
  by (simp_all add: find_leader_def forward_projection_def lead_car_moved_eq lead_car_eq
      rear_car_eq)

lemma rear_accel:
  "compute_acceleration (idm (controller rear_car)) rear_car (Some lead_car_moved)
     (Some (153 / 100)) (3 / 10) = Inr (- (16591 / 7803))"
  "compute_acceleration (idm (controller rear_car)) rear_car (Some lead_car)
     (Some (3 / 2)) 0 = Inr (- (7 / 3))"
  by (simp_all add: compute_acceleration_def rear_car_eq IDMController_init_def np_clip_def
      Let_def power2_eq_square)

lemma rear_steer:
  "compute_steering_angle (pure_pursuit (controller rear_car)) rear_car (1 / 4) 0 = 0"
  by (simp add: compute_steering_angle_def rear_car_eq PurePursuitController_init_def
      np_arctan2_def np_clip_def Let_def power2_eq_square sqrt_sixteenth)

lemma rear_control:
  "compute_control hairpin rear_car [lead_car_moved, rear_car]
     = Inr (- (16591 / 7803), 0, rear_car)"
  "compute_control hairpin rear_car [lead_car, rear_car] = Inr (- (7 / 3), 0, rear_car)"
proof -
  have "s_position rear_car = 0" "lookahead_distance rear_car = 10" "py_round (lane rear_car) = 2"
    by (simp_all add: rear_car_eq py_round_def)
  then show "compute_control hairpin rear_car [lead_car_moved, rear_car]
     = Inr (- (16591 / 7803), 0, rear_car)"
    "compute_control hairpin rear_car [lead_car, rear_car] = Inr (- (7 / 3), 0, rear_car)"
    by (simp_all add: compute_control_def rear_decide rear_smooth rear_neighbors rear_leader
        rear_accel rear_steer hairpin_target)
qed


lemma rear_dynamics:
  "update_car_dynamics rear_car (- (16591 / 7803)) 0 (1 / 10)
     = rear_car\<lparr>acceleration := - (16591 / 7803)\<rparr>"
  "update_car_dynamics rear_car (- (7 / 3)) 0 (1 / 10) = rear_car\<lparr>acceleration := - (7 / 3)\<rparr>"
  by (simp_all add: update_car_dynamics_def rear_car_eq get_max_speed_def np_clip_def Let_def)

lemma rear_project: "project_car_position hairpin 0 0 = Inr 0"
  by (simp add: project_car_position_def project_indices_def hairpin_fields
      sample_distances_def np_argmin_def slice_def Let_def power2_eq_square
      del: real_sqrt_four real_sqrt_abs real_sqrt_abs2)

lemma rear_update_state:
  "update_state (rear_car\<lparr>acceleration := - (16591 / 7803)\<rparr>) (1 / 10) hairpin
     = Inr rear_car_braked"
  by (simp add: update_state_def rear_project hairpin_fields rear_car_braked_def rear_car_eq
      Let_def)

lemma rear_update_state_snapshot:
  "update_state (rear_car\<lparr>acceleration := - (7 / 3)\<rparr>) (1 / 10) hairpin
     = Inr (rear_car\<lparr>acceleration := - (7 / 3), last_lap_start_time := 1 / 10,
              trajectory := [\<lparr>tp_x = 0, tp_y = 0, tp_yaw = 0, tp_velocity = 0,
                        tp_acceleration = - (7 / 3), tp_s_position = 0, tp_lap = 0\<rparr>]\<rparr>)"
  by (simp add: update_state_def rear_project hairpin_fields rear_car_eq Let_def)

lemma flags: "\<not> eliminated lead_car" "\<not> eliminated rear_car" "\<not> eliminated lead_car_moved"
  "tick_timer (1 / 10) lead_car = lead_car" "tick_timer (1 / 10) rear_car = rear_car"
  by (simp_all add: lead_car_eq rear_car_eq lead_car_moved_eq tick_timer_def)

lemma rear_update_car:
  "update_car hairpin (1 / 10) [lead_car_moved, rear_car] (Suc 0)
     = Inr ((- (16591 / 7803), 0), [lead_car_moved, rear_car_braked])"
  by (simp add: update_car_def flags rear_control rear_dynamics rear_update_state)

lemma two_cars_cycle:
  "update_cars hairpin (1 / 10) [0..<length [lead_car, rear_car]] [lead_car, rear_car] []
     = Inr ([(3, 0), (- (16591 / 7803), 0)], [lead_car_moved, rear_car_braked])"
  by (simp add: upt_rec flags lead_update_car rear_update_car)

lemma lead_update_car_snapshot:
  "update_car_snapshot hairpin (1 / 10) [lead_car, rear_car] [lead_car, rear_car] 0
     = Inr ((3, 0), [lead_car_moved, rear_car])"
  by (simp add: update_car_snapshot_def flags lead_control lead_dynamics lead_update_state)

lemma rear_update_car_snapshot:
  "update_car_snapshot hairpin (1 / 10) [lead_car, rear_car] [lead_car_moved, rear_car] (Suc 0)
     = Inr ((- (7 / 3), 0),
         [lead_car_moved,
          rear_car\<lparr>acceleration := - (7 / 3), last_lap_start_time := 1 / 10,
              trajectory := [\<lparr>tp_x = 0, tp_y = 0, tp_yaw = 0, tp_velocity = 0,
                        tp_acceleration = - (7 / 3), tp_s_position = 0, tp_lap = 0\<rparr>]\<rparr>])"
  by (simp add: update_car_snapshot_def flags rear_control rear_dynamics
      rear_update_state_snapshot)

lemma two_cars_commands:
  "cycle_commands hairpin (1 / 10) [lead_car, rear_car] = Inr [(3, 0), (- (16591 / 7803), 0)]"
  "snapshot_commands hairpin (1 / 10) [lead_car, rear_car] = Inr [(3, 0), (- (7 / 3), 0)]"
  by (simp_all add: cycle_commands_def snapshot_commands_def upt_rec flags
      lead_update_car rear_update_car lead_update_car_snapshot rear_update_car_snapshot)


section \<open>What the controllers read during one cycle\<close>

text \<open>
  \<open>update_car\<close> replaces the car at its position and nothing else, so the loop over
  the roster leaves the cars it has passed in their end-of-cycle state.
\<close>

lemma update_car_shape:
  assumes "update_car T dt cs k = Inr (cmd, cs1)"
  shows "\<exists>c. cs1 = cs[k := c]" and "command_at T dt cs k = Some cmd"
  using assms
  by (auto simp: update_car_def command_at_def Let_def split: sum.splits prod.splits)

lemma update_cars_commands:
  assumes "update_cars T dt [k..<n] cs cmds = Inr (commands, cars')" and "length cs = n"
  shows "length cars' = n \<and> take k cars' = take k cs
       \<and> (\<exists>new. commands = cmds @ new
              \<and> map Some new
                 = map (\<lambda>i. command_at T dt (roster_at cs cars' i) i)
                     (filter (\<lambda>i. \<not> eliminated (cs ! i)) [k..<n]))"
  using assms
proof (induction "n - k" arbitrary: k cs cmds)
  case 0
  then have e: "[k..<n] = []" by simp
  from "0.prems" show ?case unfolding e by simp
next
  case (Suc m)
  then have kn: "k < n" by simp
  then have upt: "[k..<n] = k # [Suc k..<n]" by (simp add: upt_rec)
  have m: "m = n - Suc k" using Suc.hyps(2) by simp
  show ?case
  proof (cases "eliminated (cs ! k)")
    case True
    with Suc.prems upt have r: "update_cars T dt [Suc k..<n] cs cmds = Inr (commands, cars')"
      by simp
    from Suc.hyps(1) [OF m r Suc.prems(2)] obtain new where
      l: "length cars' = n" and t: "take (Suc k) cars' = take (Suc k) cs"
      and c: "commands = cmds @ new"
      and n: "map Some new = map (\<lambda>i. command_at T dt (roster_at cs cars' i) i)
                               (filter (\<lambda>i. \<not> eliminated (cs ! i)) [Suc k..<n])"
      by blast
    from t have "take k cars' = take k cs"
      by (metis take_Suc_conv_app_nth butlast_snoc butlast_take diff_Suc_1 l Suc.prems(2) kn
          Suc_leI)
    with l c n True upt show ?thesis by simp
  next
    case False
    with Suc.prems upt obtain cmd cs1 where
      u: "update_car T dt cs k = Inr (cmd, cs1)"
      and r: "update_cars T dt [Suc k..<n] cs1 (cmds @ [cmd]) = Inr (commands, cars')"
      by (auto split: sum.splits prod.splits)
    from update_car_shape [OF u] obtain c where cs1: "cs1 = cs[k := c]"
      and ca: "command_at T dt cs k = Some cmd"
      by blast
    have l1: "length cs1 = n" using cs1 Suc.prems(2) by simp
    from Suc.hyps(1) [OF m r l1] obtain new where
      l: "length cars' = n" and t: "take (Suc k) cars' = take (Suc k) cs1"
      and c: "commands = (cmds @ [cmd]) @ new"
      and n: "map Some new = map (\<lambda>i. command_at T dt (roster_at cs1 cars' i) i)
                               (filter (\<lambda>i. \<not> eliminated (cs1 ! i)) [Suc k..<n])"
      by blast
    have tk: "take k cars' = take k cs"
    proof -
      have "take k cars' = take k (take (Suc k) cars')" by (simp add: min_def)
      also have "\<dots> = take k (take (Suc k) cs1)" by (simp only: t)
      also have "\<dots> = take k cs" by (simp add: min_def cs1)
      finally show ?thesis .
    qed
    have later: "roster_at cs1 cars' i = roster_at cs cars' i" "cs1 ! i = cs ! i"
      if "i \<in> set [Suc k..<n]" for i
      using that by (simp_all add: roster_at_def cs1 drop_update_cancel)
    have n': "map Some new = map (\<lambda>i. command_at T dt (roster_at cs cars' i) i)
                               (filter (\<lambda>i. \<not> eliminated (cs ! i)) [Suc k..<n])"
    proof -
      have "filter (\<lambda>i. \<not> eliminated (cs1 ! i)) [Suc k..<n]
          = filter (\<lambda>i. \<not> eliminated (cs ! i)) [Suc k..<n]"
        by (rule filter_cong) (simp_all add: later del: set_upt)
      moreover have "map (\<lambda>i. command_at T dt (roster_at cs1 cars' i) i)
                       (filter (\<lambda>i. \<not> eliminated (cs ! i)) [Suc k..<n])
          = map (\<lambda>i. command_at T dt (roster_at cs cars' i) i)
                       (filter (\<lambda>i. \<not> eliminated (cs ! i)) [Suc k..<n])"
        by (rule map_cong) (simp_all add: later del: set_upt)
      ultimately show ?thesis using n by simp
    qed
    have here: "roster_at cs cars' k = cs"
      by (simp add: roster_at_def tk)
    from l tk c n' False upt ca here show ?thesis by simp
  qed
qed


text \<open>
  Claim C2, as amended.  In every cycle of the fixed-timestep scheduler the command of
  each active vehicle is computed against the roster as it is at that moment: the
  vehicles before it in the roster in their end-of-cycle state, the vehicle itself
  and those after it in their start-of-cycle state.  The commands the loop produces
  are, for the positions of the vehicles that are active at the start of the cycle,
  the commands \<open>update_car\<close> computes on these rosters.
\<close>

theorem C2_commands_read_live_roster:
  assumes "update_cars T dt [0..<length cars] cars [] = Inr (commands, cars')"
  shows "length cars' = length cars
       \<and> map Some commands
           = map (\<lambda>i. command_at T dt (roster_at cars cars' i) i)
               (filter (\<lambda>i. \<not> eliminated (cars ! i)) [0..<length cars])"
  using update_cars_commands [OF assms refl] by simp

text \<open>
  The two cars on the hairpin track: the command of the rear car is the one computed
  against the lead car as it is after its own update.
\<close>

theorem C2_commands_read_live_roster_witness:
  "update_cars hairpin (1 / 10) [0..<length [lead_car, rear_car]] [lead_car, rear_car] []
     = Inr ([(3, 0), (- (16591 / 7803), 0)], [lead_car_moved, rear_car_braked])
   \<and> roster_at [lead_car, rear_car] [lead_car_moved, rear_car_braked] 1
       = [lead_car_moved, rear_car]
   \<and> map Some [(3, 0), (- (16591 / 7803), 0)]
       = [command_at hairpin (1 / 10) [lead_car, rear_car] 0,
          command_at hairpin (1 / 10) [lead_car_moved, rear_car] 1]"
proof -
  have r: "roster_at [lead_car, rear_car] [lead_car_moved, rear_car_braked] 0
             = [lead_car, rear_car]"
    "roster_at [lead_car, rear_car] [lead_car_moved, rear_car_braked] (Suc 0)
             = [lead_car_moved, rear_car]"
    by (simp_all add: roster_at_def)
  have f: "filter (\<lambda>i. \<not> eliminated ([lead_car, rear_car] ! i)) [0..<length [lead_car, rear_car]]
             = [0, Suc 0]"
    by (simp add: upt_rec flags)
  from C2_commands_read_live_roster [OF two_cars_cycle]
  have "map Some [(3, 0), (- (16591 / 7803), 0)]
       = [command_at hairpin (1 / 10) [lead_car, rear_car] 0,
          command_at hairpin (1 / 10) [lead_car_moved, rear_car] (Suc 0)]"
    by (simp only: f r list.map)
  with two_cars_cycle r show ?thesis
    by simp
qed

text \<open>
  As stated the claim fails: in the first cycle the lead car, first in the roster,
  accelerates to 0.3 m/s and moves 3 cm ahead before the rear car's controller runs;
  the rear car brakes with \<open>16591/7803\<close> m/s^2 against it, and with \<open>7/3\<close> m/s^2 in the
  reference loop, where it reads the lead car standing at its start-of-cycle place.
\<close>

theorem C2_snapshot_counterexample:
  "cycle_commands hairpin (1 / 10) [lead_car, rear_car] = Inr [(3, 0), (- (16591 / 7803), 0)]
   \<and> snapshot_commands hairpin (1 / 10) [lead_car, rear_car] = Inr [(3, 0), (- (7 / 3), 0)]
   \<and> cycle_commands hairpin (1 / 10) [lead_car, rear_car]
       \<noteq> snapshot_commands hairpin (1 / 10) [lead_car, rear_car]"
  by (simp add: two_cars_commands)
section \<open>The car-following law\<close>

text \<open>
  The car the simulation builds when the program is started with
  \<open>--speed-multiplier 0\<close>: its desired speed, and with it \<open>v0\<close>, is zero.
\<close>

lemma stalled_car_fields:
  "velocity stalled_car = 0" "desired_speed stalled_car = 0"
  "speed_multiplier stalled_car = 1"
  by (simp_all add: stalled_car_def new_car_def Car_init_def CombinedController_init_def
      cfg0_def)

text \<open>
  Claim C5, as amended.  For a car whose \<open>v0 = desired_speed * speed_multiplier\<close> is
  not zero, \<open>compute_acceleration\<close> returns \<open>clamp(aMax (1 - (v/v0)^4), -bMax, aMax)\<close>
  when no leader is given, and, when \<open>aMax bMax\<close> is positive,
  \<open>clamp(aMax (1 - (v/v0)^4 - (s*/max(d, 0.1))^2), -bMax, aMax)\<close> when a leader at
  distance \<open>d\<close> with relative speed \<open>dv\<close> is given, where
  \<open>s* = gap0 + v T + v (-dv) / (2 sqrt(aMax bMax))\<close>.
\<close>

theorem C5_compute_acceleration:
  assumes "desired_speed c * speed_multiplier c \<noteq> 0"
  shows "compute_acceleration (IDMController_init aMax bMax gap0 T vdes) c None dopt dv
       = Inr (spec_accel_free aMax bMax (velocity c) (desired_speed c * speed_multiplier c))
     \<and> (0 < aMax * bMax \<longrightarrow>
          compute_acceleration (IDMController_init aMax bMax gap0 T vdes) c (Some l) (Some d) dv
            = Inr (spec_accel_leader aMax bMax gap0 T (velocity c)
                     (desired_speed c * speed_multiplier c) d dv))"
  using assms
  by (simp add: compute_acceleration_def IDMController_init_def spec_accel_free_def
      spec_accel_leader_def desiredGap_def clamp_def np_clip_def Let_def)

text \<open>
  The rear car of the two-car roster, standing 1.5 m behind a leader that stands too:
  \<open>v = 0\<close>, \<open>v0 = 20\<close>, \<open>s* = 2\<close>, and the law gives \<open>3 (1 - (2 / 1.5)^2) = -7/3\<close>; with
  no leader it gives the full acceleration 3.
\<close>

theorem C5_compute_acceleration_witness:
  "desired_speed rear_car * speed_multiplier rear_car \<noteq> 0
   \<and> (0::real) < 3 * 5
   \<and> compute_acceleration (IDMController_init 3 5 2 1 20) rear_car None None 0 = Inr 3
   \<and> compute_acceleration (IDMController_init 3 5 2 1 20) rear_car (Some lead_car)
        (Some (3 / 2)) 0 = Inr (- (7 / 3))"
proof -
  have v0: "desired_speed rear_car * speed_multiplier rear_car = 20" "velocity rear_car = 0"
    by (simp_all add: rear_car_def new_car_def Car_init_def CombinedController_init_def
        cfg0_def)
  have f: "spec_accel_free 3 5 0 20 = 3"
    by (simp add: spec_accel_free_def clamp_def)
  have l: "spec_accel_leader 3 5 2 1 0 20 (3 / 2) 0 = - (7 / 3)"
    by (simp add: spec_accel_leader_def desiredGap_def clamp_def power2_eq_square)
  from C5_compute_acceleration [of rear_car 3 5 2 1 20 None 0 lead_car "3 / 2"]
  show ?thesis
    by (simp add: v0 f l)
qed

text \<open>
  As stated the claim fails where \<open>v0 = 0\<close>: for the car built under
  \<open>--speed-multiplier 0\<close> the quotient \<open>v / v0\<close> is \<open>0.0 / 0.0\<close>, and
  \<open>compute_acceleration\<close> raises instead of returning an acceleration.
\<close>

theorem C5_zero_speed_counterexample:
  "new_car cfg0 0 0 0 0 0 ''balanced'' 2 = Inr stalled_car
   \<and> compute_acceleration (idm (controller stalled_car)) stalled_car None None 0
       = Inl ZeroDivisionError"
proof -
  have "new_car cfg0 0 0 0 0 0 ''balanced'' 2 = Inr stalled_car"
    by (simp add: stalled_car_def new_car_def Car_init_def CombinedController_init_def
        cfg0_def)
  then show ?thesis
    by (simp add: compute_acceleration_def stalled_car_fields Let_def)
qed

section \<open>What one collision pass reports\<close>

lemma sqrt_9_100: "sqrt (9 / 100) = 3 / 10"
  by (rule real_sqrt_unique) (simp_all add: power2_eq_square)

lemma sqrt_9_10000: "sqrt (9 / 10000) = 3 / 100"
  by (rule real_sqrt_unique) (simp_all add: power2_eq_square)

lemma balanced_car_fields:
  "car_id balanced_car = 0" "car_x balanced_car = 0" "car_y balanced_car = 0"
  "yaw balanced_car = 0" "velocity balanced_car = 0" "\<not> eliminated balanced_car"
  "lap_count balanced_car = 0" "collision_count balanced_car = 0"
  "total_collision_severity balanced_car = 0" "desired_speed balanced_car = 20"
  "speed_multiplier balanced_car = 1" "wheelbase balanced_car = 5 / 2"
  by (simp_all add: balanced_car_def new_car_def Car_init_def CombinedController_init_def
      cfg0_def)

lemma moving_car_fields:
  "car_id moving_car = 0" "car_x moving_car = 3 / 100" "car_y moving_car = 0"
  "yaw moving_car = 0" "velocity moving_car = 3 / 10" "\<not> eliminated moving_car"
  "lap_count moving_car = 0" "collision_count moving_car = 0"
  "total_collision_severity moving_car = 0"
  by (simp_all add: moving_car_def update_car_dynamics_def Let_def balanced_car_fields
      get_max_speed_def np_clip_def py_mod_def)

lemma standing_car_fields:
  "car_id standing_car = 1" "car_x standing_car = 0" "car_y standing_car = 0"
  "yaw standing_car = 0" "velocity standing_car = 0" "\<not> eliminated standing_car"
  "lap_count standing_car = 0" "collision_count standing_car = 0"
  "total_collision_severity standing_car = 0"
  by (simp_all add: standing_car_def new_car_def Car_init_def CombinedController_init_def
      cfg0_def)

lemma colliding_events_spec:
  "map ev_triple (colliding_events r t cars) = spec_collisions r cars"
  by (simp add: colliding_events_def colliding_row_def spec_collisions_def map_concat comp_def
      ev_triple_def make_event_def relative_speed_def spec_severity_def velocity_vector_def
      colliding_def spec_collides_def car_distance_def Let_def)

lemma map_ev_triple_timestamp:
  "map ev_triple (map (\<lambda>e. e\<lparr>ev_timestamp := t2\<rparr>) es) = map ev_triple es"
  by (simp add: ev_triple_def comp_def)

text \<open>
  A roster in which two cars carry the identifier 0: \<open>balanced_car\<close> and \<open>standing_car\<close>
  stand at the origin, \<open>moving_car\<close> overlaps both.  The pass records the pairs of
  positions \<open>(0, 1)\<close> and \<open>(0, 2)\<close>; the specification's list has three entries.
\<close>

lemma three_cars_pass:
  "map ev_triple (fst (check_collisions detector0 [balanced_car, standing_car, moving_car] 0))
     = [(0, 1, 0), (0, 0, 3 / 10)]"
  by (simp add: check_collisions_def collide_pair_def Let_def upt_rec detector0_def
      CollisionDetector_init_def cfg0_def balanced_car_fields standing_car_fields
      moving_car_fields pair_key_def car_distance_def relative_speed_def make_event_def
      record_hit_def ev_triple_def power2_eq_square sqrt_9_100 sqrt_9_10000)

lemma three_cars_spec:
  "spec_collisions 2 [balanced_car, standing_car, moving_car]
     = [(0, 1, 0), (0, 0, 3 / 10), (1, 0, 3 / 10)]"
  by (simp add: spec_collisions_def spec_collides_def spec_severity_def velocity_vector_def
      upt_rec balanced_car_fields standing_car_fields moving_car_fields power2_eq_square
      sqrt_9_100 sqrt_9_10000)

text \<open>
  Claim C6, as amended.  One call of \<open>check_collisions\<close> never reports the same
  unordered pair of identifiers twice.  On a roster whose cars have pairwise distinct
  identifiers, the events it returns are, in the order of the loops, exactly one event
  for every pair of positions \<open>i < j\<close> whose cars are both not eliminated and closer
  than \<open>collision_radius\<close>, the event's severity being the magnitude of the difference
  of the two velocity vectors (\<open>spec_collisions\<close>); every car's \<open>collision_count\<close> grows by
  the number, and its \<open>total_collision_severity\<close> by the severities, of the events it
  takes part in (\<open>tally\<close>); and a second call on the resulting roster reports the same
  pairs with the same severities again.
\<close>

theorem C6_check_collisions:
  assumes "check_collisions det cars t = (new_collisions, det', cars')"
  shows "distinct (map ev_pair new_collisions)
       \<and> det' = det\<lparr>collisions := collisions det @ new_collisions\<rparr>
       \<and> (distinct (map car_id cars) \<longrightarrow>
            map ev_triple new_collisions = spec_collisions (collision_radius det) cars
            \<and> tally cars cars' new_collisions
            \<and> map ev_triple (fst (check_collisions det' cars' t2))
                = spec_collisions (collision_radius det) cars)"
proof -
  have a: "distinct (map ev_pair new_collisions)"
    using check_collisions_distinct_pairs [of det cars t] assms by simp
  have b: "det' = det\<lparr>collisions := collisions det @ new_collisions\<rparr>"
    using assms by (auto simp: check_collisions_def Let_def)
  have c: "map ev_triple new_collisions = spec_collisions (collision_radius det) cars
      \<and> tally cars cars' new_collisions
      \<and> map ev_triple (fst (check_collisions det' cars' t2))
          = spec_collisions (collision_radius det) cars"
    if d: "distinct (map car_id cars)"
  proof -
    note e = check_collisions_events [OF d, of det t]
    from e(1) assms have n: "new_collisions = colliding_events (collision_radius det) t cars"
      by simp
    from assms have c': "cars' = snd (snd (check_collisions det cars t))"
      by simp
    from e(2) c' have ms: "map static cars' = map static cars"
      by simp
    then have d': "distinct (map car_id cars')"
      using d distinct_ids_static by blast
    have r: "collision_radius det' = collision_radius det"
      using b by simp
    from check_collisions_events(1) [OF d', of det' t2]
    have "fst (check_collisions det' cars' t2) = colliding_events (collision_radius det) t2 cars'"
      by (simp add: r)
    also have "\<dots> = colliding_events (collision_radius det) t2 cars"
      by (rule colliding_events_static [OF ms])
    finally have "map ev_triple (fst (check_collisions det' cars' t2))
        = spec_collisions (collision_radius det) cars"
      by (simp only: colliding_events_spec)
    moreover have "map ev_triple new_collisions = spec_collisions (collision_radius det) cars"
      by (simp only: n colliding_events_spec)
    ultimately show ?thesis
      using n e(3) c' by simp
  qed
  from a b c show ?thesis by blast
qed

text \<open>
  Two overlapping cars, one moving at 0.3 m/s: one event of severity 0.3, counted for
  both cars, and reported again by a second call.
\<close>

theorem C6_check_collisions_witness:
  "distinct (map car_id [moving_car, standing_car])
   \<and> fst (check_collisions detector0 [moving_car, standing_car] 0)
       = [\<lparr>ev_timestamp = 0, ev_car_id1 = 0, ev_car_id2 = 1, ev_x = 3 / 200, ev_y = 0,
           ev_lap = 0, ev_severity = 3 / 10\<rparr>]
   \<and> spec_collisions 2 [moving_car, standing_car] = [(0, 1, 3 / 10)]
   \<and> collision_count (snd (snd (check_collisions detector0 [moving_car, standing_car] 0)) ! 0) = 1
   \<and> total_collision_severity
         (snd (snd (check_collisions detector0 [moving_car, standing_car] 0)) ! 1) = 3 / 10
   \<and> map ev_triple (fst (check_collisions
            (fst (snd (check_collisions detector0 [moving_car, standing_car] 0)))
            (snd (snd (check_collisions detector0 [moving_car, standing_car] 0))) 1))
       = [(0, 1, 3 / 10)]"
proof -
  let ?cars = "[moving_car, standing_car]"
  let ?res = "check_collisions detector0 ?cars 0"
  let ?ev = "\<lparr>ev_timestamp = 0, ev_car_id1 = 0, ev_car_id2 = 1, ev_x = 3 / 200, ev_y = 0,
           ev_lap = 0, ev_severity = 3 / 10 :: real\<rparr>"
  have d: "distinct (map car_id ?cars)"
    by (simp add: moving_car_fields standing_car_fields)
  have r: "collision_radius detector0 = 2"
    by (simp add: detector0_def CollisionDetector_init_def cfg0_def)
  have col: "colliding 2 moving_car standing_car"
    by (simp add: colliding_def car_distance_def moving_car_fields standing_car_fields
        power2_eq_square sqrt_9_10000)
  have me: "make_event 0 moving_car standing_car = ?ev"
    by (simp add: make_event_def relative_speed_def moving_car_fields standing_car_fields
        power2_eq_square sqrt_9_100)
  have ce: "colliding_events 2 0 ?cars = [?ev]"
    by (simp add: colliding_events_def colliding_row_def col me upt_rec)
  have n': "fst ?res = [?ev]"
    using check_collisions_events(1) [OF d, of detector0 0] by (simp only: r ce)
  have sc: "spec_collisions 2 ?cars = [(0, 1, 3 / 10)]"
    using colliding_events_spec [of 2 0 ?cars] by (simp add: ce ev_triple_def)
  have eq: "?res = (fst ?res, fst (snd ?res), snd (snd ?res))"
    by simp
  from C6_check_collisions [OF eq, of 1] d
  have tl: "tally ?cars (snd (snd ?res)) (fst ?res)"
    and again: "map ev_triple (fst (check_collisions (fst (snd ?res)) (snd (snd ?res)) 1))
        = spec_collisions (collision_radius detector0) ?cars"
    by blast+
  from tl have "collision_count (snd (snd ?res) ! 0) = 1"
    "total_collision_severity (snd (snd ?res) ! 1) = 3 / 10"
    by (simp_all add: tally_def n' involves_def moving_car_fields standing_car_fields
        All_less_Suc)
  with d n' again sc show ?thesis
    by (simp add: r)
qed

text \<open>
  As stated the claim fails on a roster in which an identifier occurs twice: the cars
  at positions 1 and 2 of the roster below collide with relative speed 0.3, but their
  identifier pair \<open>(0, 1)\<close> has been reported for positions 0 and 1, with severity 0,
  and no event is recorded for them.
\<close>

theorem C6_duplicate_ids_counterexample:
  "map ev_triple (fst (check_collisions detector0 [balanced_car, standing_car, moving_car] 0))
     = [(0, 1, 0), (0, 0, 3 / 10)]
   \<and> spec_collisions (collision_radius detector0) [balanced_car, standing_car, moving_car]
     = [(0, 1, 0), (0, 0, 3 / 10), (1, 0, 3 / 10)]
   \<and> spec_collides (collision_radius detector0) standing_car moving_car"
proof -
  have r: "collision_radius detector0 = 2"
    by (simp add: detector0_def CollisionDetector_init_def cfg0_def)
  have "spec_collides 2 standing_car moving_car"
    by (simp add: spec_collides_def standing_car_fields moving_car_fields power2_eq_square
        sqrt_9_10000)
  with three_cars_pass three_cars_spec show ?thesis
    by (simp add: r)
qed

section \<open>Round trip through the projection\<close>



section \<open>The refinement step of the projection\<close>

text \<open>
  Claim C10.  On a track built from at least ten centre-line samples, for every query
  point \<open>(px, py)\<close>: \<open>project_car_position\<close> returns \<open>arc_lengths[i0]\<close>, where \<open>i0\<close>
  is the first index minimising the distance from the point to the centre-line
  samples, and the local refinement finds the very index the global search found,
  also under distance ties.  On a track built from fewer than ten samples
  \<open>project_car_position\<close> returns nothing: it raises \<open>ValueError\<close> for every query
  point.
\<close>

theorem C10_refinement_is_identity:
  assumes "Track_init rx ry w nl cx cy = Inr T"
  shows "(10 \<le> length cx \<longrightarrow>
            (\<exists>i0. first_min (sample_distances (centerline_x T) (centerline_y T) px py) i0
                 \<and> project_indices T px py = Inr (i0, i0)
                 \<and> project_car_position T px py = Inr (arc_lengths T ! i0)))
       \<and> (length cx < 10 \<longrightarrow> project_car_position T px py = Inl ValueError)"
proof -
  note f = Track_init_fields [OF assms]
  from f have len: "length (centerline_x T) = length cx" "length (centerline_y T) = length cx"
    "length (arc_lengths T) = length cx"
    by simp_all
  from project_car_position_first_min [OF len, of px py]
    project_car_position_short [OF len, of px py]
  show ?thesis by blast
qed

text \<open>
  The rectangle of ten samples, where the point \<open>(5/4, 0)\<close> is nearest to sample 1,
  and the track of two samples, where the projection raises.
\<close>

theorem C10_refinement_is_identity_witness:
  "Track_init 60 40 12 5 [0, 1, 2, 3, 3, 3, 2, 1, 0, 0] [0, 0, 0, 0, 1, 2, 2, 2, 2, 1]
     = Inr rectangle
   \<and> 10 \<le> length [0, 1, 2, 3, 3, 3, 2, 1, 0, 0 :: real]
   \<and> project_indices rectangle (5 / 4) 0 = Inr (1, 1)
   \<and> project_car_position rectangle (5 / 4) 0 = Inr (arc_lengths rectangle ! 1)
   \<and> Track_init 60 40 12 5 [0, 1] [0, 0] = Inr two_samples
   \<and> length [0, 1 :: real] < 10
   \<and> project_car_position two_samples 0 0 = Inl ValueError"
proof -
  from C10_refinement_is_identity [OF two_samples_built, of 0 0]
  have "project_car_position two_samples 0 0 = Inl ValueError"
    by simp
  moreover from C10_refinement_is_identity [OF rectangle_built, of "5 / 4" 0]
  have "\<exists>i0. project_indices rectangle (5 / 4) 0 = Inr (i0, i0)
      \<and> project_car_position rectangle (5 / 4) 0 = Inr (arc_lengths rectangle ! i0)"
    by auto
  ultimately show ?thesis
    using rectangle_built two_samples_built rectangle_projection
    by (auto simp: rectangle_fields)
qed


end
